theory Spec2Isabelle
  imports Main "HOL-Library.Sublist"
begin

section \<open>SaveImages: the file name and path policy of \<open>saveimages.py\<close>\<close>

text \<open>
  A shallow embedding of the \<open>SaveImages\<close> module of
  \<open>pyCellProfiler/cellprofiler/modules/saveimages.py\<close>: the construction of the output
  file name (\<open>get_filename\<close>), the encoder format (\<open>get_file_format\<close>), the
  first-cycle gate (\<open>prepare_run\<close>, \<open>prepare_group\<close>, \<open>run_image\<close>) and the
  upgrade of old setting lists (\<open>backwards_compatibilize\<close>).

  Settings are compared by their string values, as the source does; exceptions are values
  of type \<open>error\<close>; \<open>os.path\<close> is \<open>posixpath\<close>, with separator \<open>/\<close>.
\<close>

subsection \<open>Constants of the module\<close>

definition IF_IMAGE :: string where "IF_IMAGE = ''Image''"
definition IF_MASK :: string where "IF_MASK = ''Mask''"
definition IF_CROPPING :: string where "IF_CROPPING = ''Cropping''"
definition IF_FIGURE :: string where "IF_FIGURE = ''Figure''"
definition IF_MOVIE :: string where "IF_MOVIE = ''Movie''"
definition FN_FROM_IMAGE :: string where "FN_FROM_IMAGE = ''From image filename''"
definition FN_SEQUENTIAL :: string where "FN_SEQUENTIAL = ''Sequential numbers''"
definition FN_SINGLE_NAME :: string where "FN_SINGLE_NAME = ''Single name''"
definition FN_WITH_METADATA :: string where "FN_WITH_METADATA = ''Name with metadata''"
definition FF_BMP :: string where "FF_BMP = ''bmp''"
definition FF_GIF :: string where "FF_GIF = ''gif''"
definition FF_HDF :: string where "FF_HDF = ''hdf''"
definition FF_JPG :: string where "FF_JPG = ''jpg''"
definition FF_JPEG :: string where "FF_JPEG = ''jpeg''"
definition FF_PBM :: string where "FF_PBM = ''pbm''"
definition FF_PCX :: string where "FF_PCX = ''pcx''"
definition FF_PGM :: string where "FF_PGM = ''pgm''"
definition FF_PNG :: string where "FF_PNG = ''png''"
definition FF_PNM :: string where "FF_PNM = ''pnm''"
definition FF_PPM :: string where "FF_PPM = ''ppm''"
definition FF_RAS :: string where "FF_RAS = ''ras''"
definition FF_TIF :: string where "FF_TIF = ''tif''"
definition FF_TIFF :: string where "FF_TIFF = ''tiff''"
definition FF_XWD :: string where "FF_XWD = ''xwd''"
definition FF_AVI :: string where "FF_AVI = ''avi''"
definition FF_MAT :: string where "FF_MAT = ''mat''"
definition PC_DEFAULT :: string where "PC_DEFAULT = ''Default output directory''"
definition PC_WITH_IMAGE :: string where "PC_WITH_IMAGE = ''Same directory as image''"
definition PC_CUSTOM :: string where "PC_CUSTOM = ''Custom''"
definition PC_WITH_METADATA :: string where "PC_WITH_METADATA = ''Custom with metadata''"
definition WS_EVERY_CYCLE :: string where "WS_EVERY_CYCLE = ''Every cycle''"
definition WS_FIRST_CYCLE :: string where "WS_FIRST_CYCLE = ''First cycle''"
definition WS_LAST_CYCLE :: string where "WS_LAST_CYCLE = ''Last cycle''"
definition CM_GRAY :: string where "CM_GRAY = ''gray''"

text \<open>
  Modelled from the spec: \<open>cps.DO_NOT_USE\<close> of \<open>cellprofiler.settings\<close>, which is not
  among the sources; the spec calls it the reserved "do not use" sentinel of a setting
  that is left unset.
\<close>

definition DO_NOT_USE :: string where "DO_NOT_USE = ''Do not use''"

text \<open>The choices of the \<open>file_format\<close> setting, in the order of \<open>create_settings\<close>.\<close>

definition file_format_choices :: "string list" where
  "file_format_choices =
     [FF_BMP, FF_GIF, FF_HDF, FF_JPG, FF_JPEG, FF_PBM, FF_PCX, FF_PGM, FF_PNG, FF_PNM,
      FF_PPM, FF_RAS, FF_TIF, FF_TIFF, FF_XWD, FF_AVI, FF_MAT]"

subsection \<open>Exceptions as values\<close>

datatype error =
    KeyError string
  | IndexError
  | NotImplementedError string
  | MetadataError string

definition bind_result :: "error + 'a \<Rightarrow> ('a \<Rightarrow> error + 'b) \<Rightarrow> error + 'b" where
  "bind_result r f = (case r of Inl e \<Rightarrow> Inl e | Inr v \<Rightarrow> f v)"

subsection \<open>The settings of one module instance and the workspace of one cycle\<close>

text \<open>
  The fields of \<open>create_settings\<close>: a \<open>Choice\<close>, \<open>Text\<close> or name subscriber holds a
  string, a \<open>Binary\<close> a boolean. \<open>module_name'\<close> (the source's \<open>module_name\<close>)
  and \<open>module_num\<close> give the \<open>module_key\<close>.
\<close>

record settings =
  module_name' :: string
  module_num :: int
  save_image_or_figure :: string
  image_name :: string
  figure_name :: string
  file_name_method :: string
  file_image_name :: string
  single_file_name :: string
  file_name_suffix :: string
  file_format :: string
  pathname_choice :: string
  movie_pathname_choice :: string
  pathname :: string
  bit_depth :: string
  overwrite_check :: bool
  when_to_save :: string
  when_to_save_movie :: string
  rescale :: bool
  colormap :: string
  update_file_names :: bool
  create_subdirectories :: bool

text \<open>An image of the image set: only its provenance path is read here.\<close>

record cpimage =
  path_name :: string

text \<open>
  What \<open>get_filename\<close> reads of the workspace and of the preferences:
  \<open>measurements.image_set_number\<close>, the current \<open>Image\<close> measurements by feature name,
  \<open>measurements.apply_metadata\<close> (a function of \<open>cellprofiler.measurements\<close>, not among
  the sources, taken as a parameter that returns the substituted text or raises),
  \<open>image_set.legacy_fields\<close>, the images of the image set by name, and
  \<open>cpp.get_default_output_directory()\<close>.

  What \<open>run_image\<close> reads and writes: \<open>workspace.image_set_list\<close>, whose
  \<open>legacy_fields\<close> hold one dictionary per module (the home of \<open>FIRST_IMAGE\<close>).
  The pixel conversion and the encoder of \<open>save_image\<close> are outside the model: an
  invocation is counted in \<open>save_image_calls\<close>, and \<open>save_image_raises\<close> tells what
  the k-th invocation raises, if anything. The measurements \<open>FileName_\<close> and
  \<open>PathName_\<close> that \<open>save_image\<close> writes back under \<open>update_file_names\<close>
  (lines 446 to 453) are outside the model too: \<open>image_measurements\<close> is what one call
  of \<open>get_filename\<close> finds, and no operation of the model changes it.
\<close>

record cp_image_set_list =
  isl_legacy_fields :: "string \<rightharpoonup> (string \<rightharpoonup> bool)"

record workspace =
  image_set_number :: int
  image_measurements :: "string \<rightharpoonup> string"
  apply_metadata :: "string \<Rightarrow> error + string"
  image_set_legacy_fields :: "string \<rightharpoonup> string"
  image_set_images :: "string \<rightharpoonup> cpimage"
  default_output_directory :: string
  image_set_list :: cp_image_set_list
  save_image_calls :: nat
  save_image_raises :: "nat \<Rightarrow> error option"

definition get_current_measurement :: "workspace \<Rightarrow> string \<Rightarrow> error + string" where
  "get_current_measurement workspace feature_name =
     (case image_measurements workspace feature_name of
        None \<Rightarrow> Inl (KeyError feature_name)
      | Some v \<Rightarrow> Inr v)"

definition get_legacy_field :: "workspace \<Rightarrow> string \<Rightarrow> error + string" where
  "get_legacy_field workspace key =
     (case image_set_legacy_fields workspace key of
        None \<Rightarrow> Inl (KeyError key)
      | Some v \<Rightarrow> Inr v)"

definition get_image :: "workspace \<Rightarrow> string \<Rightarrow> error + cpimage" where
  "get_image workspace name =
     (case image_set_images workspace name of
        None \<Rightarrow> Inl (KeyError name)
      | Some v \<Rightarrow> Inr v)"

subsection \<open>\<open>os.path\<close> and string formatting\<close>

definition os_path_sep :: char where "os_path_sep = CHR ''/''"

text \<open>\<open>posixpath.join(a, b)\<close>: an absolute \<open>b\<close> replaces \<open>a\<close>.\<close>

definition os_path_join :: "string \<Rightarrow> string \<Rightarrow> string" where
  "os_path_join a b =
     (if take 1 b = [os_path_sep] then b
      else if a = [] \<or> (a \<noteq> [] \<and> last a = os_path_sep) then a @ b
      else a @ [os_path_sep] @ b)"

text \<open>\<open>str.rfind\<close> for one character: the last index of \<open>c\<close> in \<open>p\<close>, or \<open>-1\<close>.\<close>

definition rfind :: "string \<Rightarrow> char \<Rightarrow> int" where
  "rfind p c =
     (if c \<in> set p
      then int (length p) - 1 - int (length (takeWhile (\<lambda>x. x \<noteq> c) (rev p)))
      else - 1)"

text \<open>
  The loop of \<open>genericpath._splitext\<close> that skips leading dots: true when some character
  from \<open>filenameIndex\<close> up to \<open>dotIndex\<close> is not a dot.
\<close>

function splitext_loop :: "string \<Rightarrow> nat \<Rightarrow> nat \<Rightarrow> bool" where
  "splitext_loop p filenameIndex dotIndex =
     (if filenameIndex < dotIndex
      then (if p ! filenameIndex \<noteq> CHR ''.'' then True
            else splitext_loop p (filenameIndex + 1) dotIndex)
      else False)"
  by pat_completeness auto
termination
  by (relation "measure (\<lambda>(p, i, d). d - i)") auto

declare splitext_loop.simps [simp del]

definition os_path_splitext :: "string \<Rightarrow> string \<times> string" where
  "os_path_splitext p =
     (let sepIndex = rfind p os_path_sep;
          dotIndex = rfind p (CHR ''.'')
      in if dotIndex > sepIndex \<and> splitext_loop p (nat (sepIndex + 1)) (nat dotIndex)
         then (take (nat dotIndex) p, drop (nat dotIndex) p)
         else (p, []))"

text \<open>The \<open>%d\<close> conversion of an integer: decimal digits, no padding, a sign when negative.\<close>

definition digit_char :: "nat \<Rightarrow> char" where
  "digit_char d = ''0123456789'' ! d"

function format_nat :: "nat \<Rightarrow> string" where
  "format_nat n =
     (if n < 10 then [digit_char n] else format_nat (n div 10) @ [digit_char (n mod 10)])"
  by pat_completeness auto
termination
  by (relation "measure (\<lambda>n. n)") auto

declare format_nat.simps [simp del]

definition format_d :: "int \<Rightarrow> string" where
  "format_d i = (if i < 0 then CHR ''-'' # format_nat (nat (- i)) else format_nat (nat i))"

subsection \<open>\<open>get_filename\<close> and \<open>get_file_format\<close>\<close>

text \<open>Lines 459 to 474 of \<open>get_filename\<close>: the file name with its extension.\<close>

definition get_filename_name :: "settings \<Rightarrow> workspace \<Rightarrow> error + string" where
  "get_filename_name self workspace =
     bind_result
       (if file_name_method self = FN_SINGLE_NAME then Inr (single_file_name self)
        else if file_name_method self = FN_WITH_METADATA
          then apply_metadata workspace (single_file_name self)
        else if file_name_method self = FN_SEQUENTIAL
          then Inr (single_file_name self @ format_d (image_set_number workspace + 1))
        else
          bind_result
            (get_current_measurement workspace (''FileName_'' @ file_image_name self))
            (\<lambda>filename.
               let filename = fst (os_path_splitext filename)
               in Inr (if file_name_suffix self \<noteq> DO_NOT_USE
                       then filename @ file_name_suffix self else filename)))
       (\<lambda>filename. Inr (filename @ ''.'' @ file_format self))"

text \<open>
  Lines 477 to 485 of \<open>get_filename\<close>: the directory of the path choices
  \<open>PC_DEFAULT\<close>, \<open>PC_CUSTOM\<close> and \<open>PC_WITH_METADATA\<close>, before any subdirectory.
\<close>

definition get_filename_directory :: "settings \<Rightarrow> workspace \<Rightarrow> error + string" where
  "get_filename_directory self workspace =
     (if pathname_choice self = PC_DEFAULT then Inr (default_output_directory workspace)
      else
        bind_result
          (if pathname_choice self = PC_WITH_METADATA
           then apply_metadata workspace (pathname self)
           else Inr (pathname self))
          (\<lambda>pathname.
             Inr (if take 2 pathname = [CHR ''.'', os_path_sep]
                  then os_path_join (default_output_directory workspace) (drop 2 pathname)
                  else pathname)))"

text \<open>Lines 476 to 510 of \<open>get_filename\<close>: the directory with its subdirectory.\<close>

definition get_filename_pathname :: "settings \<Rightarrow> workspace \<Rightarrow> error + string" where
  "get_filename_pathname self workspace =
     (if pathname_choice self \<in> {PC_DEFAULT, PC_CUSTOM, PC_WITH_METADATA} then
        bind_result (get_filename_directory self workspace)
          (\<lambda>pathname.
             if file_name_method self \<in> {FN_FROM_IMAGE, FN_SEQUENTIAL, FN_WITH_METADATA}
                \<and> create_subdirectories self
             then
               bind_result
                 (get_current_measurement workspace (''PathName_'' @ file_image_name self))
                 (\<lambda>orig_pathname. Inr (os_path_join pathname orig_pathname))
             else Inr pathname)
      else if pathname_choice self = PC_WITH_IMAGE then
        (if file_name_method self = FN_FROM_IMAGE then
           bind_result
             (get_current_measurement workspace (''PathName_'' @ file_image_name self))
             (\<lambda>pathname.
                bind_result
                  (get_legacy_field workspace (''Pathname'' @ file_image_name self))
                  (\<lambda>root. Inr (os_path_join root pathname)))
         else
           bind_result (get_image workspace (image_name self))
             (\<lambda>image. Inr (path_name image)))
      else Inl (NotImplementedError (''Unknown pathname mechanism: '' @ pathname_choice self)))"

text \<open>
  \<open>get_filename\<close>: the name is made first, so its exception comes first; then the
  directory; then both are joined (line 512).
\<close>

definition get_filename :: "settings \<Rightarrow> workspace \<Rightarrow> error + string" where
  "get_filename self workspace =
     bind_result (get_filename_name self workspace)
       (\<lambda>filename.
          bind_result (get_filename_pathname self workspace)
            (\<lambda>pathname. Inr (os_path_join pathname filename)))"

definition get_file_format :: "settings \<Rightarrow> string" where
  "get_file_format self =
     (if file_format self = FF_JPG then FF_JPEG
      else if file_format self = FF_TIF then FF_TIFF
      else file_format self)"

subsection \<open>The first-cycle gate\<close>

definition module_key :: "settings \<Rightarrow> string" where
  "module_key self = module_name' self @ ''_'' @ format_d (module_num self)"

definition get_dictionary :: "settings \<Rightarrow> cp_image_set_list \<Rightarrow> error + (string \<rightharpoonup> bool)" where
  "get_dictionary self set_list =
     (case isl_legacy_fields set_list (module_key self) of
        None \<Rightarrow> Inl (KeyError (module_key self))
      | Some d \<Rightarrow> Inr d)"

text \<open>\<open>prepare_run\<close> and \<open>prepare_group\<close> return \<open>True\<close>; the model returns the list they updated.\<close>

definition prepare_run :: "settings \<Rightarrow> cp_image_set_list \<Rightarrow> cp_image_set_list" where
  "prepare_run self set_list =
     set_list\<lparr>isl_legacy_fields := (isl_legacy_fields set_list)(module_key self \<mapsto> Map.empty)\<rparr>"

definition prepare_group :: "settings \<Rightarrow> cp_image_set_list \<Rightarrow> error + cp_image_set_list" where
  "prepare_group self set_list =
     bind_result (get_dictionary self set_list)
       (\<lambda>d. Inr (set_list\<lparr>isl_legacy_fields :=
                      (isl_legacy_fields set_list)(module_key self \<mapsto> d(''FIRST_IMAGE'' \<mapsto> True))\<rparr>))"

text \<open>
  An exception leaves the workspace as it was when it was raised, so every operation on the
  workspace returns the exception, if any, together with the workspace.
\<close>

definition save_image :: "settings \<Rightarrow> workspace \<Rightarrow> error option \<times> workspace" where
  "save_image self workspace =
     (save_image_raises workspace (save_image_calls workspace),
      workspace\<lparr>save_image_calls := save_image_calls workspace + 1\<rparr>)"

definition run_image :: "settings \<Rightarrow> workspace \<Rightarrow> error option \<times> workspace" where
  "run_image self workspace =
     (if when_to_save self = WS_FIRST_CYCLE then
        (case get_dictionary self (image_set_list workspace) of
           Inl e \<Rightarrow> (Some e, workspace)
         | Inr d \<Rightarrow>
             (case d ''FIRST_IMAGE'' of
                None \<Rightarrow> (Some (KeyError ''FIRST_IMAGE''), workspace)
              | Some first_image \<Rightarrow>
                  if \<not> first_image then (None, workspace)
                  else
                    save_image self
                      (workspace\<lparr>image_set_list :=
                         (image_set_list workspace)\<lparr>isl_legacy_fields :=
                            (isl_legacy_fields (image_set_list workspace))
                              (module_key self \<mapsto> d(''FIRST_IMAGE'' \<mapsto> False))\<rparr>\<rparr>)))
      else if when_to_save self = WS_LAST_CYCLE then (None, workspace)
      else save_image self workspace)"

text \<open>
  The cycles of one group: \<open>run_image\<close> once per cycle on the same image set list,
  whether or not an earlier cycle raised.
\<close>

fun run_images :: "settings \<Rightarrow> nat \<Rightarrow> workspace \<Rightarrow> workspace" where
  "run_images self 0 workspace = workspace"
| "run_images self (Suc n) workspace = run_images self n (snd (run_image self workspace))"

subsection \<open>\<open>backwards_compatibilize\<close>\<close>

text \<open>\<open>xs[i]\<close> for a constant index that is not negative.\<close>

definition index :: "'a list \<Rightarrow> nat \<Rightarrow> error + 'a" where
  "index xs i = (if i < length xs then Inr (xs ! i) else Inl IndexError)"

text \<open>
  \<open>str.isdigit\<close> of a byte string: not empty, and decimal digits only. Which characters
  count as digits depends on the type of the text (\<open>unicode.isdigit\<close> accepts more than
  these ten), so the rewrite of revision 14 takes the test as a parameter; this is the
  instance for byte strings.
\<close>

definition str_isdigit :: "string \<Rightarrow> bool" where
  "str_isdigit s = (s \<noteq> [] \<and> (\<forall>c \<in> set s. c \<in> set ''0123456789''))"

definition startswith :: "string \<Rightarrow> string \<Rightarrow> bool" where
  "startswith s p = (take (length p) s = p)"

text \<open>
  The loop of revision 13 over the indices 3 and 12. Where the setting is a single
  backslash, the source compares \<open>new_setting_values[i]\<close> with \<open>DO_NOT_USE\<close>
  (\<open>==\<close>) and drops the result: nothing is assigned.
\<close>

fun upgrade_13_loop :: "string list \<Rightarrow> string list \<Rightarrow> nat list \<Rightarrow> error + string list" where
  "upgrade_13_loop setting_values new_setting_values [] = Inr new_setting_values"
| "upgrade_13_loop setting_values new_setting_values (i # rest) =
     (case index setting_values i of
        Inl e \<Rightarrow> Inl e
      | Inr v \<Rightarrow>
          if v = [CHR 0x5C] then
            (case index new_setting_values i of
               Inl e \<Rightarrow> Inl e
             | Inr w \<Rightarrow>
                 (let compared = (w = DO_NOT_USE)
                  in upgrade_13_loop setting_values new_setting_values rest))
          else upgrade_13_loop setting_values new_setting_values rest)"

text \<open>
  The rewrite of revision 14 (lines 247 to 285). \<open>find_metadata_tokens\<close> belongs to
  \<open>cellprofiler.measurements\<close>, which is not among the sources: it is a parameter, as is
  the \<open>isdigit\<close> test of the text type.
\<close>

definition upgrade_14 ::
  "(string \<Rightarrow> bool) \<Rightarrow> (string \<Rightarrow> string list) \<Rightarrow> string list \<Rightarrow> error + string list" where
  "upgrade_14 isdigit find_metadata_tokens setting_values =
     bind_result (index setting_values 0) (\<lambda>sv0.
     bind_result
       (if isdigit sv0
        then bind_result (index setting_values 1) (\<lambda>sv1. Inr [IF_FIGURE, sv1])
        else
          bind_result (index setting_values 3) (\<lambda>sv3.
            Inr (if sv3 = ''avi'' then [IF_MOVIE, sv0]
                 else if startswith sv0 ''Cropping''
                   then [IF_CROPPING, drop (length ''Cropping'') sv0]
                 else if startswith sv0 ''CropMask''
                   then [IF_MASK, drop (length ''CropMask'') sv0]
                 else [IF_IMAGE, sv0])))
       (\<lambda>new_setting_values.
     bind_result (index new_setting_values 1) (\<lambda>new1.
     let new_setting_values = new_setting_values @ [new1] in
     bind_result (index setting_values 1) (\<lambda>sv1.
     bind_result
       (if sv1 = ''N'' then Inr (new_setting_values @ [FN_SEQUENTIAL, ''None'', ''None''])
        else
          bind_result (index sv1 0) (\<lambda>c.
            Inr (if [c] = ''=''
                 then new_setting_values @ [FN_SINGLE_NAME, drop 1 sv1, drop 1 sv1]
                 else if length (find_metadata_tokens sv1) \<noteq> 0
                   then new_setting_values @ [FN_WITH_METADATA, sv1, sv1]
                 else new_setting_values @ [FN_FROM_IMAGE, sv1, sv1])))
       (\<lambda>new_setting_values.
     let new_setting_values = new_setting_values @ take 2 (drop 2 setting_values) in
     bind_result (index setting_values 4) (\<lambda>sv4.
     let new_setting_values =
           (if sv4 = ''.'' then new_setting_values @ [PC_DEFAULT, ''None'']
            else if sv4 = ''&'' then new_setting_values @ [PC_WITH_IMAGE, ''None'']
            else if length (find_metadata_tokens sv1) \<noteq> 0
              then new_setting_values @ [PC_WITH_METADATA, sv4]
            else new_setting_values @ [PC_CUSTOM, sv4]);
         new_setting_values = new_setting_values @ take 6 (drop 5 setting_values);
         new_setting_values = new_setting_values @ drop 12 setting_values
     in Inr new_setting_values))))))"

text \<open>
  The three steps follow each other in one call. Revision 13 builds \<open>new_setting_values\<close>
  and leaves \<open>setting_values\<close> alone; revision 14 reads \<open>setting_values\<close>.
\<close>

definition backwards_compatibilize ::
  "(string \<Rightarrow> bool) \<Rightarrow> (string \<Rightarrow> string list) \<Rightarrow> string list \<Rightarrow> int \<Rightarrow> string \<Rightarrow> bool
     \<Rightarrow> error + (string list \<times> int \<times> bool)" where
  "backwards_compatibilize isdigit find_metadata_tokens setting_values variable_revision_number
       module_name from_matlab =
     (let variable_revision_number =
            (if from_matlab \<and> variable_revision_number = 12 then 13
             else variable_revision_number)
      in
        bind_result
          (if from_matlab \<and> variable_revision_number = 13
           then bind_result (upgrade_13_loop setting_values setting_values [3, 12])
                  (\<lambda>new_setting_values. Inr 14)
           else Inr variable_revision_number)
          (\<lambda>variable_revision_number.
             if from_matlab \<and> variable_revision_number = 14
             then bind_result (upgrade_14 isdigit find_metadata_tokens setting_values)
                    (\<lambda>new_setting_values. Inr (new_setting_values, 1, False))
             else Inr (setting_values, variable_revision_number, from_matlab)))"

subsection \<open>Concrete settings and workspaces\<close>

text \<open>The settings as \<open>create_settings\<close> leaves them, for module number 1.\<close>

definition default_settings :: settings where
  "default_settings =
     \<lparr>module_name' = ''SaveImages'', module_num = 1,
      save_image_or_figure = IF_IMAGE, image_name = ''None'', figure_name = ''None'',
      file_name_method = FN_FROM_IMAGE, file_image_name = ''None'',
      single_file_name = ''OrigBlue'', file_name_suffix = DO_NOT_USE,
      file_format = FF_BMP, pathname_choice = PC_DEFAULT,
      movie_pathname_choice = PC_DEFAULT, pathname = ''.'', bit_depth = ''8'',
      overwrite_check = True, when_to_save = WS_EVERY_CYCLE,
      when_to_save_movie = WS_LAST_CYCLE, rescale = False, colormap = CM_GRAY,
      update_file_names = False, create_subdirectories = False\<rparr>"

text \<open>
  A workspace of the first cycle: the image \<open>None\<close> was loaded from
  \<open>/data/plate1/img.01.tif\<close>, the default output directory is \<open>/out\<close>, and the image
  set list is as \<open>prepare_run\<close> leaves it. Metadata substitution finds no tag.
\<close>

definition example_workspace :: workspace where
  "example_workspace =
     \<lparr>image_set_number = 0,
      image_measurements =
        [''FileName_None'' \<mapsto> ''img.01.tif'', ''PathName_None'' \<mapsto> ''plate1''],
      apply_metadata = (\<lambda>t. Inl (MetadataError t)),
      image_set_legacy_fields = [''PathnameNone'' \<mapsto> ''/data''],
      image_set_images = [''None'' \<mapsto> \<lparr>path_name = ''/prov''\<rparr>],
      default_output_directory = ''/out'',
      image_set_list = \<lparr>isl_legacy_fields = [''SaveImages_1'' \<mapsto> Map.empty]\<rparr>,
      save_image_calls = 0,
      save_image_raises = (\<lambda>k. None)\<rparr>"

section \<open>Properties\<close>

subsection \<open>Auxiliary facts\<close>

lemmas saveimages_consts =
  IF_IMAGE_def IF_MASK_def IF_CROPPING_def IF_FIGURE_def IF_MOVIE_def
  FN_FROM_IMAGE_def FN_SEQUENTIAL_def FN_SINGLE_NAME_def FN_WITH_METADATA_def
  FF_BMP_def FF_GIF_def FF_HDF_def FF_JPG_def FF_JPEG_def FF_PBM_def FF_PCX_def
  FF_PGM_def FF_PNG_def FF_PNM_def FF_PPM_def FF_RAS_def FF_TIF_def FF_TIFF_def
  FF_XWD_def FF_AVI_def FF_MAT_def PC_DEFAULT_def PC_WITH_IMAGE_def PC_CUSTOM_def
  PC_WITH_METADATA_def WS_EVERY_CYCLE_def WS_FIRST_CYCLE_def WS_LAST_CYCLE_def
  CM_GRAY_def DO_NOT_USE_def

lemma bind_result_Inr [simp]: "bind_result (Inr v) f = f v"
  by (simp add: bind_result_def)

lemma bind_result_Inl [simp]: "bind_result (Inl e) f = Inl e"
  by (simp add: bind_result_def)

lemma bind_result_eq_Inr:
  "bind_result r f = Inr y \<longleftrightarrow> (\<exists>v. r = Inr v \<and> f v = Inr y)"
  by (cases r) simp_all

lemma os_path_join_suffix: "suffix b (os_path_join a b)"
  by (simp add: os_path_join_def suffix_def)

lemma get_filename_name_suffix:
  assumes "get_filename_name self workspace = Inr filename"
  shows "suffix (''.'' @ file_format self) filename"
  using assms unfolding get_filename_name_def bind_result_eq_Inr
  by (auto simp: suffix_def)

lemma get_filename_suffix:
  assumes "get_filename self workspace = Inr p"
  shows "suffix (''.'' @ file_format self) p"
proof -
  from assms obtain filename pathname where
    n: "get_filename_name self workspace = Inr filename" and
    p: "p = os_path_join pathname filename"
    unfolding get_filename_def bind_result_eq_Inr by auto
  have "suffix (''.'' @ file_format self) filename"
    using n by (rule get_filename_name_suffix)
  moreover have "suffix filename p"
    unfolding p by (rule os_path_join_suffix)
  ultimately show ?thesis
    by (rule suffix_order.trans)
qed

subsection \<open>The extension of the file name and the format for the encoder\<close>

text \<open>
  Claim C2. When the selected extension is the short form \<open>jpg\<close> (or \<open>tif\<close>), every
  file name that \<open>get_filename\<close> returns ends in \<open>.jpg\<close> (or \<open>.tif\<close>) as configured,
  while \<open>get_file_format\<close> gives the encoder the long form \<open>jpeg\<close> (or \<open>tiff\<close>).
\<close>

theorem get_filename_extension_alias:
  "(file_format self = FF_JPG \<longrightarrow>
      get_file_format self = FF_JPEG \<and>
      (\<forall>p. get_filename self workspace = Inr p \<longrightarrow> suffix ''.jpg'' p)) \<and>
   (file_format self = FF_TIF \<longrightarrow>
      get_file_format self = FF_TIFF \<and>
      (\<forall>p. get_filename self workspace = Inr p \<longrightarrow> suffix ''.tif'' p))"
proof (intro conjI impI allI)
  fix p
  assume "file_format self = FF_JPG" and "get_filename self workspace = Inr p"
  then show "suffix ''.jpg'' p"
    using get_filename_suffix [of self workspace p] by (simp add: FF_JPG_def)
next
  fix p
  assume "file_format self = FF_TIF" and "get_filename self workspace = Inr p"
  then show "suffix ''.tif'' p"
    using get_filename_suffix [of self workspace p] by (simp add: FF_TIF_def)
qed (simp_all add: get_file_format_def FF_JPG_def FF_TIF_def)

theorem get_filename_extension_alias_witness:
  "get_file_format (default_settings\<lparr>file_format := FF_JPG\<rparr>) = ''jpeg'' \<and>
   get_filename (default_settings\<lparr>file_format := FF_JPG\<rparr>) example_workspace
     = Inr ''/out/img.01.jpg'' \<and>
   suffix ''.jpg'' ''/out/img.01.jpg'' \<and>
   get_file_format (default_settings\<lparr>file_format := FF_TIF\<rparr>) = ''tiff'' \<and>
   get_filename (default_settings\<lparr>file_format := FF_TIF\<rparr>) example_workspace
     = Inr ''/out/img.01.tif'' \<and>
   suffix ''.tif'' ''/out/img.01.tif''"
proof -
  have j: "get_filename (default_settings\<lparr>file_format := FF_JPG\<rparr>) example_workspace
             = Inr ''/out/img.01.jpg''"
    by code_simp
  have t: "get_filename (default_settings\<lparr>file_format := FF_TIF\<rparr>) example_workspace
             = Inr ''/out/img.01.tif''"
    by code_simp
  show ?thesis
    using get_filename_extension_alias
            [of "default_settings\<lparr>file_format := FF_JPG\<rparr>" example_workspace]
          get_filename_extension_alias
            [of "default_settings\<lparr>file_format := FF_TIF\<rparr>" example_workspace]
          j t
    by (simp add: FF_JPEG_def FF_TIFF_def)
qed

text \<open>
  Claim C10. \<open>get_file_format\<close> is idempotent: applied to its own output it returns
  that output. It is the identity on every format other than \<open>jpg\<close> and \<open>tif\<close>, so on
  each of the fifteen other selectable formats (\<open>jpeg\<close>, \<open>tiff\<close>, \<open>png\<close>, \<open>bmp\<close>,
  \<open>mat\<close> and the rest).
\<close>

theorem get_file_format_idempotent:
  "get_file_format (self\<lparr>file_format := get_file_format self\<rparr>) = get_file_format self \<and>
   (f \<noteq> FF_JPG \<and> f \<noteq> FF_TIF \<longrightarrow> get_file_format (self\<lparr>file_format := f\<rparr>) = f) \<and>
   map (\<lambda>f. get_file_format (self\<lparr>file_format := f\<rparr>))
       [FF_BMP, FF_GIF, FF_HDF, FF_JPEG, FF_PBM, FF_PCX, FF_PGM, FF_PNG, FF_PNM,
        FF_PPM, FF_RAS, FF_TIFF, FF_XWD, FF_AVI, FF_MAT]
     = [FF_BMP, FF_GIF, FF_HDF, FF_JPEG, FF_PBM, FF_PCX, FF_PGM, FF_PNG, FF_PNM,
        FF_PPM, FF_RAS, FF_TIFF, FF_XWD, FF_AVI, FF_MAT] \<and>
   filter (\<lambda>f. f \<noteq> FF_JPG \<and> f \<noteq> FF_TIF) file_format_choices
     = [FF_BMP, FF_GIF, FF_HDF, FF_JPEG, FF_PBM, FF_PCX, FF_PGM, FF_PNG, FF_PNM,
        FF_PPM, FF_RAS, FF_TIFF, FF_XWD, FF_AVI, FF_MAT]"
  by (simp add: get_file_format_def file_format_choices_def saveimages_consts)

theorem get_file_format_idempotent_witness:
  "FF_PNG \<noteq> FF_JPG \<and> FF_PNG \<noteq> FF_TIF \<and>
   get_file_format (default_settings\<lparr>file_format := FF_PNG\<rparr>) = ''png'' \<and>
   get_file_format (default_settings\<lparr>file_format := get_file_format default_settings\<rparr>) = get_file_format default_settings"
  using get_file_format_idempotent [of default_settings FF_PNG]
  by (simp add: FF_PNG_def FF_JPG_def FF_TIF_def)

subsection \<open>The directory of the image\<close>

text \<open>
  Claim C1 says that \<open>PC_WITH_IMAGE\<close> with a naming method other than
  \<open>FN_FROM_IMAGE\<close> fails. It does not: with sequential numbers the file goes to the
  directory the image came from.
\<close>

theorem get_filename_with_image_counterexample:
  "pathname_choice (default_settings\<lparr>file_name_method := FN_SEQUENTIAL,
                                      pathname_choice := PC_WITH_IMAGE\<rparr>) = PC_WITH_IMAGE \<and>
   file_name_method (default_settings\<lparr>file_name_method := FN_SEQUENTIAL,
                                       pathname_choice := PC_WITH_IMAGE\<rparr>) \<noteq> FN_FROM_IMAGE \<and>
   get_filename (default_settings\<lparr>file_name_method := FN_SEQUENTIAL,
                                   pathname_choice := PC_WITH_IMAGE\<rparr>) example_workspace
     = Inr ''/prov/OrigBlue1.bmp''"
  by code_simp

text \<open>
  Claim C1, amended. With \<open>PC_WITH_IMAGE\<close> and a naming method other than
  \<open>FN_FROM_IMAGE\<close>, the directory is the \<open>path_name\<close> of the image that is saved (its
  provenance): the result is that directory joined with the file name. It fails only
  where the file name fails or the image is not in the image set.
\<close>

theorem get_filename_with_image_provenance:
  assumes "pathname_choice self = PC_WITH_IMAGE"
    and "file_name_method self \<noteq> FN_FROM_IMAGE"
  shows "get_filename self workspace =
           bind_result (get_filename_name self workspace)
             (\<lambda>filename.
                case image_set_images workspace (image_name self) of
                  None \<Rightarrow> Inl (KeyError (image_name self))
                | Some img \<Rightarrow> Inr (os_path_join (path_name img) filename))"
proof -
  have "get_filename_pathname self workspace =
          bind_result (get_image workspace (image_name self)) (\<lambda>image. Inr (path_name image))"
    using assms by (simp add: get_filename_pathname_def saveimages_consts)
  then show ?thesis
    by (simp add: get_filename_def get_image_def split: option.splits)
qed

theorem get_filename_with_image_provenance_witness:
  "get_filename (default_settings\<lparr>file_name_method := FN_SINGLE_NAME,
                                   pathname_choice := PC_WITH_IMAGE\<rparr>) example_workspace
     = Inr ''/prov/OrigBlue.bmp''"
proof -
  have "pathname_choice (default_settings\<lparr>file_name_method := FN_SINGLE_NAME,
                                            pathname_choice := PC_WITH_IMAGE\<rparr>) = PC_WITH_IMAGE"
    by simp
  moreover have "file_name_method (default_settings\<lparr>file_name_method := FN_SINGLE_NAME,
                                            pathname_choice := PC_WITH_IMAGE\<rparr>) \<noteq> FN_FROM_IMAGE"
    by (simp add: FN_SINGLE_NAME_def FN_FROM_IMAGE_def)
  ultimately have "get_filename (default_settings\<lparr>file_name_method := FN_SINGLE_NAME,
                                   pathname_choice := PC_WITH_IMAGE\<rparr>) example_workspace =
           bind_result (get_filename_name (default_settings\<lparr>file_name_method := FN_SINGLE_NAME,
                                   pathname_choice := PC_WITH_IMAGE\<rparr>) example_workspace)
             (\<lambda>filename.
                case image_set_images example_workspace (image_name (default_settings\<lparr>file_name_method := FN_SINGLE_NAME,
                                   pathname_choice := PC_WITH_IMAGE\<rparr>)) of
                  None \<Rightarrow> Inl (KeyError (image_name (default_settings\<lparr>file_name_method := FN_SINGLE_NAME,
                                   pathname_choice := PC_WITH_IMAGE\<rparr>)))
                | Some img \<Rightarrow> Inr (os_path_join (path_name img) filename))"
    by (rule get_filename_with_image_provenance)
  also have "\<dots> = Inr ''/prov/OrigBlue.bmp''"
    by (simp add: get_filename_name_def default_settings_def example_workspace_def
          saveimages_consts os_path_join_def os_path_sep_def)
  finally show ?thesis .
qed

subsection \<open>Determinism\<close>

text \<open>
  Claim C3. \<open>get_filename\<close> is a function of what it reads: two calls whose settings
  agree on the naming method, the templates, the suffix, the extension, the path choice,
  the image names and the subdirectory flag, and whose workspaces agree on the sequence
  number, the measurements, the metadata, the source file name and paths and the default
  output directory, return the same path or raise the same exception, whatever the other
  settings, the \<open>FIRST_IMAGE\<close> flag and the number of images saved so far are.
\<close>

theorem get_filename_deterministic:
  assumes "file_name_method self' = file_name_method self"
    and "single_file_name self' = single_file_name self"
    and "file_name_suffix self' = file_name_suffix self"
    and "file_image_name self' = file_image_name self"
    and "image_name self' = image_name self"
    and "file_format self' = file_format self"
    and "pathname_choice self' = pathname_choice self"
    and "pathname self' = pathname self"
    and "create_subdirectories self' = create_subdirectories self"
    and "image_set_number workspace' = image_set_number workspace"
    and "image_measurements workspace' = image_measurements workspace"
    and "apply_metadata workspace' = apply_metadata workspace"
    and "image_set_legacy_fields workspace' = image_set_legacy_fields workspace"
    and "image_set_images workspace' = image_set_images workspace"
    and "default_output_directory workspace' = default_output_directory workspace"
  shows "get_filename self' workspace' = get_filename self workspace"
proof -
  have m: "get_current_measurement workspace' = get_current_measurement workspace"
    using assms by (simp add: get_current_measurement_def fun_eq_iff)
  have l: "get_legacy_field workspace' = get_legacy_field workspace"
    using assms by (simp add: get_legacy_field_def fun_eq_iff)
  have i: "get_image workspace' = get_image workspace"
    using assms by (simp add: get_image_def fun_eq_iff)
  have n: "get_filename_name self' workspace' = get_filename_name self workspace"
    unfolding get_filename_name_def m using assms by (simp add: Let_def cong: if_cong)
  have d: "get_filename_directory self' workspace' = get_filename_directory self workspace"
    unfolding get_filename_directory_def using assms by (simp cong: if_cong)
  have p: "get_filename_pathname self' workspace' = get_filename_pathname self workspace"
    unfolding get_filename_pathname_def m l i d using assms by (simp cong: if_cong)
  show ?thesis
    unfolding get_filename_def n p ..
qed

theorem get_filename_deterministic_witness:
  "get_filename
     (default_settings\<lparr>when_to_save := WS_FIRST_CYCLE, overwrite_check := False,
                        bit_depth := ''16'', update_file_names := True\<rparr>)
     (example_workspace\<lparr>save_image_calls := 7,
                         image_set_list := \<lparr>isl_legacy_fields = Map.empty\<rparr>\<rparr>)
   = get_filename default_settings example_workspace \<and>
   get_filename default_settings example_workspace = Inr ''/out/img.01.bmp''"
proof -
  have "get_filename default_settings example_workspace = Inr ''/out/img.01.bmp''"
    by code_simp
  moreover have "get_filename
     (default_settings\<lparr>when_to_save := WS_FIRST_CYCLE, overwrite_check := False,
                        bit_depth := ''16'', update_file_names := True\<rparr>)
     (example_workspace\<lparr>save_image_calls := 7,
                         image_set_list := \<lparr>isl_legacy_fields = Map.empty\<rparr>\<rparr>)
   = get_filename default_settings example_workspace"
    by (rule get_filename_deterministic) simp_all
  ultimately show ?thesis by simp
qed

subsection \<open>The custom directory\<close>

text \<open>
  Claim C4 says that a custom path that starts with a dot and the separator always lands
  under the default output directory. It does not where the rest of the path starts with
  the separator too: \<open>os.path.join\<close> takes the rest as absolute.
\<close>

theorem get_filename_custom_absolute_rest_counterexample:
  "pathname_choice (default_settings\<lparr>pathname_choice := PC_CUSTOM, pathname := ''.//tmp''\<rparr>)
     = PC_CUSTOM \<and>
   take 2 (pathname (default_settings\<lparr>pathname_choice := PC_CUSTOM, pathname := ''.//tmp''\<rparr>))
     = [CHR ''.'', os_path_sep] \<and>
   default_output_directory example_workspace = ''/out'' \<and>
   get_filename_directory
     (default_settings\<lparr>pathname_choice := PC_CUSTOM, pathname := ''.//tmp''\<rparr>)
     example_workspace = Inr ''/tmp'' \<and>
   get_filename (default_settings\<lparr>pathname_choice := PC_CUSTOM, pathname := ''.//tmp''\<rparr>)
     example_workspace = Inr ''/tmp/img.01.bmp''"
  by code_simp

text \<open>
  Claim C4, amended. With \<open>PC_CUSTOM\<close> and a path that starts with a dot and the
  separator, the directory is \<open>os.path.join\<close> of the default output directory and the
  rest of the path: the default output directory, one separator unless the directory
  ends with one or is empty, and the rest; a rest that starts with the separator stands
  alone. Any other path is used as it is. Without subdirectories this directory is the one
  the file name is joined to.
\<close>

theorem get_filename_directory_custom:
  assumes "pathname_choice self = PC_CUSTOM"
  shows "get_filename_directory self workspace =
           Inr (if take 2 (pathname self) = [CHR ''.'', os_path_sep]
                then (if take 1 (drop 2 (pathname self)) = [os_path_sep]
                      then drop 2 (pathname self)
                      else if default_output_directory workspace = []
                              \<or> last (default_output_directory workspace) = os_path_sep
                        then default_output_directory workspace @ drop 2 (pathname self)
                      else default_output_directory workspace @ [os_path_sep]
                             @ drop 2 (pathname self))
                else pathname self) \<and>
         (\<not> create_subdirectories self \<longrightarrow>
            get_filename self workspace =
              bind_result (get_filename_name self workspace)
                (\<lambda>filename.
                   bind_result (get_filename_directory self workspace)
                     (\<lambda>dir. Inr (os_path_join dir filename))))"
proof (intro conjI impI)
  show "get_filename_directory self workspace =
           Inr (if take 2 (pathname self) = [CHR ''.'', os_path_sep]
                then (if take 1 (drop 2 (pathname self)) = [os_path_sep]
                      then drop 2 (pathname self)
                      else if default_output_directory workspace = []
                              \<or> last (default_output_directory workspace) = os_path_sep
                        then default_output_directory workspace @ drop 2 (pathname self)
                      else default_output_directory workspace @ [os_path_sep]
                             @ drop 2 (pathname self))
                else pathname self)"
    using assms
    by (simp add: get_filename_directory_def os_path_join_def PC_CUSTOM_def PC_DEFAULT_def
          PC_WITH_METADATA_def)
next
  assume "\<not> create_subdirectories self"
  then have "get_filename_pathname self workspace =
               bind_result (get_filename_directory self workspace) Inr"
    using assms by (simp add: get_filename_pathname_def)
  also have "\<dots> = get_filename_directory self workspace"
    by (cases "get_filename_directory self workspace") simp_all
  finally show "get_filename self workspace =
              bind_result (get_filename_name self workspace)
                (\<lambda>filename.
                   bind_result (get_filename_directory self workspace)
                     (\<lambda>dir. Inr (os_path_join dir filename)))"
    by (simp add: get_filename_def)
qed

theorem get_filename_directory_custom_witness:
  "get_filename_directory
     (default_settings\<lparr>pathname_choice := PC_CUSTOM, pathname := ''./sub''\<rparr>)
     example_workspace = Inr ''/out/sub'' \<and>
   get_filename
     (default_settings\<lparr>pathname_choice := PC_CUSTOM, pathname := ''./sub''\<rparr>)
     example_workspace = Inr ''/out/sub/img.01.bmp'' \<and>
   get_filename_directory
     (default_settings\<lparr>pathname_choice := PC_CUSTOM, pathname := ''sub/./x''\<rparr>)
     example_workspace = Inr ''sub/./x''"
proof -
  have c: "pathname_choice
             (default_settings\<lparr>pathname_choice := PC_CUSTOM, pathname := ''./sub''\<rparr>)
             = PC_CUSTOM"
          "pathname_choice
             (default_settings\<lparr>pathname_choice := PC_CUSTOM, pathname := ''sub/./x''\<rparr>)
             = PC_CUSTOM"
    by simp_all
  have n: "\<not> create_subdirectories
               (default_settings\<lparr>pathname_choice := PC_CUSTOM, pathname := ''./sub''\<rparr>)"
    by (simp add: default_settings_def)
  have f: "get_filename_name
             (default_settings\<lparr>pathname_choice := PC_CUSTOM, pathname := ''./sub''\<rparr>)
             example_workspace = Inr ''img.01.bmp''"
    by code_simp
  have j: "os_path_join ''/out/sub'' ''img.01.bmp'' = ''/out/sub/img.01.bmp''"
    by code_simp
  have d: "get_filename_directory
             (default_settings\<lparr>pathname_choice := PC_CUSTOM, pathname := ''./sub''\<rparr>)
             example_workspace = Inr ''/out/sub''"
    using get_filename_directory_custom [OF c(1), of example_workspace]
    by (simp add: example_workspace_def os_path_sep_def)
  have "get_filename
          (default_settings\<lparr>pathname_choice := PC_CUSTOM, pathname := ''./sub''\<rparr>)
          example_workspace =
        bind_result
          (get_filename_name
             (default_settings\<lparr>pathname_choice := PC_CUSTOM, pathname := ''./sub''\<rparr>)
             example_workspace)
          (\<lambda>filename.
             bind_result
               (get_filename_directory
                  (default_settings\<lparr>pathname_choice := PC_CUSTOM, pathname := ''./sub''\<rparr>)
                  example_workspace)
               (\<lambda>dir. Inr (os_path_join dir filename)))"
    using get_filename_directory_custom [OF c(1), of example_workspace] n
    by blast
  then have g: "get_filename
          (default_settings\<lparr>pathname_choice := PC_CUSTOM, pathname := ''./sub''\<rparr>)
          example_workspace = Inr ''/out/sub/img.01.bmp''"
    by (simp add: f d j)
  have v: "get_filename_directory
             (default_settings\<lparr>pathname_choice := PC_CUSTOM, pathname := ''sub/./x''\<rparr>)
             example_workspace = Inr ''sub/./x''"
    using get_filename_directory_custom [OF c(2), of example_workspace]
    by (simp add: os_path_sep_def)
  from d g v show ?thesis
    by simp
qed

subsection \<open>The name from the image file name\<close>

lemma rfind_append_last:
  assumes "c \<notin> set e"
  shows "rfind (b @ c # e) c = int (length b)"
proof -
  have "takeWhile (\<lambda>x. x \<noteq> c) (rev e @ c # rev b) = rev e"
    using assms by (auto simp: takeWhile_append)
  then show ?thesis
    by (simp add: rfind_def)
qed

lemma rfind_append_notin:
  assumes "c \<notin> set e"
  shows "rfind (b @ e) c = rfind b c"
proof (cases "c \<in> set b")
  case True
  have "takeWhile (\<lambda>x. x \<noteq> c) (rev e @ rev b) = rev e @ takeWhile (\<lambda>x. x \<noteq> c) (rev b)"
    using assms by (auto simp: takeWhile_append)
  with True show ?thesis
    by (simp add: rfind_def)
next
  case False
  with assms show ?thesis
    by (simp add: rfind_def)
qed

lemma rfind_bounds: "- 1 \<le> rfind p c \<and> rfind p c < int (length p)"
proof (cases "c \<in> set p")
  case True
  have "length (takeWhile (\<lambda>x. x \<noteq> c) (rev p)) < length p"
  proof -
    have "takeWhile (\<lambda>x. x \<noteq> c) (rev p) \<noteq> rev p"
      using True by auto
    moreover have "takeWhile (\<lambda>x. x \<noteq> c) (rev p)
                     = take (length (takeWhile (\<lambda>x. x \<noteq> c) (rev p))) (rev p)"
      by (rule takeWhile_eq_take)
    ultimately have "length (takeWhile (\<lambda>x. x \<noteq> c) (rev p)) \<noteq> length (rev p)"
      by auto
    moreover have "length (takeWhile (\<lambda>x. x \<noteq> c) (rev p)) \<le> length (rev p)"
      by (rule length_takeWhile_le)
    ultimately show ?thesis by simp
  qed
  with True show ?thesis
    by (simp add: rfind_def)
next
  case False
  then show ?thesis
    by (simp add: rfind_def)
qed

lemma rfind_after:
  assumes "c \<in> set e"
  shows "int (length b) < rfind (b @ x # e) c"
proof -
  from assms obtain e1 e2 where e: "e = e1 @ c # e2" and n: "c \<notin> set e2"
    by (meson split_list_last)
  have "rfind ((b @ x # e1) @ c # e2) c = int (length (b @ x # e1))"
    using n by (rule rfind_append_last)
  then show ?thesis
    by (simp add: e)
qed

lemma drop_rfind:
  "drop (nat (rfind b c + 1)) b = rev (takeWhile (\<lambda>x. x \<noteq> c) (rev b))"
proof (cases "c \<in> set b")
  case True
  let ?t = "length (takeWhile (\<lambda>x. x \<noteq> c) (rev b))"
  have le: "?t \<le> length b"
    using length_takeWhile_le [of "\<lambda>x. x \<noteq> c" "rev b"] by simp
  have "nat (rfind b c + 1) = length b - ?t"
    using True le by (simp add: rfind_def)
  then have "drop (nat (rfind b c + 1)) b = drop (length b - ?t) b"
    by simp
  also have "\<dots> = rev (take ?t (rev b))"
    by (simp add: rev_take)
  also have "take ?t (rev b) = takeWhile (\<lambda>x. x \<noteq> c) (rev b)"
    by (rule takeWhile_eq_take [symmetric])
  finally show ?thesis .
next
  case False
  then have tw: "takeWhile (\<lambda>x. x \<noteq> c) (rev b) = rev b"
    by auto
  have r: "rfind b c = - 1"
    using False by (simp add: rfind_def)
  show ?thesis
    unfolding tw r by simp
qed

lemma splitext_loop_iff:
  "splitext_loop p i d \<longleftrightarrow> (\<exists>k. i \<le> k \<and> k < d \<and> p ! k \<noteq> CHR ''.'')"
proof (induction p i d rule: splitext_loop.induct)
  case (1 p i d)
  show ?case
  proof (cases "i < d")
    case False
    then show ?thesis
      by (subst splitext_loop.simps) auto
  next
    case True
    show ?thesis
    proof (cases "p ! i \<noteq> CHR ''.''")
      case True
      with \<open>i < d\<close> show ?thesis
        by (subst splitext_loop.simps) auto
    next
      case False
      then have "splitext_loop p (i + 1) d \<longleftrightarrow> (\<exists>k. i + 1 \<le> k \<and> k < d \<and> p ! k \<noteq> CHR ''.'')"
        using "1.IH" \<open>i < d\<close> by simp
      moreover have "(\<exists>k. i + 1 \<le> k \<and> k < d \<and> p ! k \<noteq> CHR ''.'')
                       \<longleftrightarrow> (\<exists>k. i \<le> k \<and> k < d \<and> p ! k \<noteq> CHR ''.'')"
      proof
        assume "\<exists>k. i + 1 \<le> k \<and> k < d \<and> p ! k \<noteq> CHR ''.''"
        then obtain k where "i + 1 \<le> k" "k < d" "p ! k \<noteq> CHR ''.''" by blast
        then have "i \<le> k \<and> k < d \<and> p ! k \<noteq> CHR ''.''" by simp
        then show "\<exists>k. i \<le> k \<and> k < d \<and> p ! k \<noteq> CHR ''.''" by blast
      next
        assume "\<exists>k. i \<le> k \<and> k < d \<and> p ! k \<noteq> CHR ''.''"
        then obtain k where k: "i \<le> k" "k < d" "p ! k \<noteq> CHR ''.''" by blast
        with False have "k \<noteq> i" by auto
        with k have "i + 1 \<le> k \<and> k < d \<and> p ! k \<noteq> CHR ''.''" by simp
        then show "\<exists>k. i + 1 \<le> k \<and> k < d \<and> p ! k \<noteq> CHR ''.''" by blast
      qed
      ultimately show ?thesis
        using False \<open>i < d\<close> by (subst splitext_loop.simps) simp
    qed
  qed
qed

lemma splitext_loop_prefix:
  assumes "i \<le> length b"
  shows "splitext_loop (b @ r) i (length b) \<longleftrightarrow> (\<exists>c \<in> set (drop i b). c \<noteq> CHR ''.'')"
proof -
  have "(\<exists>k. i \<le> k \<and> k < length b \<and> (b @ r) ! k \<noteq> CHR ''.'')
          \<longleftrightarrow> (\<exists>c \<in> set (drop i b). c \<noteq> CHR ''.'')"
  proof
    assume "\<exists>k. i \<le> k \<and> k < length b \<and> (b @ r) ! k \<noteq> CHR ''.''"
    then obtain k where k: "i \<le> k" "k < length b" "(b @ r) ! k \<noteq> CHR ''.''"
      by blast
    then have "b ! k \<noteq> CHR ''.''"
      by (simp add: nth_append)
    moreover have "b ! k \<in> set (drop i b)"
    proof -
      have "drop i b ! (k - i) = b ! k"
        using k by simp
      moreover have "k - i < length (drop i b)"
        using k by simp
      ultimately show ?thesis
        by (metis nth_mem)
    qed
    ultimately show "\<exists>c \<in> set (drop i b). c \<noteq> CHR ''.''"
      by blast
  next
    assume "\<exists>c \<in> set (drop i b). c \<noteq> CHR ''.''"
    then obtain j where j: "j < length (drop i b)" "drop i b ! j \<noteq> CHR ''.''"
      by (metis in_set_conv_nth)
    then have "i \<le> i + j \<and> i + j < length b \<and> (b @ r) ! (i + j) \<noteq> CHR ''.''"
      using assms by (simp add: nth_append)
    then show "\<exists>k. i \<le> k \<and> k < length b \<and> (b @ r) ! k \<noteq> CHR ''.''"
      by blast
  qed
  then show ?thesis
    by (simp add: splitext_loop_iff)
qed

lemma os_path_splitext_decomposed:
  assumes "CHR ''.'' \<notin> set e" and "os_path_sep \<notin> set e"
  shows "os_path_splitext (b @ CHR ''.'' # e) =
           (if \<exists>c \<in> set (takeWhile (\<lambda>x. x \<noteq> os_path_sep) (rev b)). c \<noteq> CHR ''.''
            then (b, CHR ''.'' # e) else (b @ CHR ''.'' # e, []))"
proof -
  have d: "rfind (b @ CHR ''.'' # e) (CHR ''.'') = int (length b)"
    using assms(1) by (rule rfind_append_last)
  have "os_path_sep \<notin> set (CHR ''.'' # e)"
    using assms(2) by (simp add: os_path_sep_def)
  then have s: "rfind (b @ CHR ''.'' # e) os_path_sep = rfind b os_path_sep"
    by (rule rfind_append_notin)
  have lt: "rfind b os_path_sep < int (length b)" and ge: "- 1 \<le> rfind b os_path_sep"
    using rfind_bounds [of b os_path_sep] by simp_all
  then have le: "nat (rfind b os_path_sep + 1) \<le> length b"
    by simp
  have "splitext_loop (b @ CHR ''.'' # e) (nat (rfind b os_path_sep + 1)) (length b)
          \<longleftrightarrow> (\<exists>c \<in> set (takeWhile (\<lambda>x. x \<noteq> os_path_sep) (rev b)). c \<noteq> CHR ''.'')"
    using splitext_loop_prefix [OF le, of "CHR ''.'' # e"]
    by (simp add: drop_rfind)
  then show ?thesis
    using lt by (simp add: os_path_splitext_def d s Let_def)
qed

lemma os_path_splitext_last_dot:
  assumes "os_path_splitext p \<noteq> (p, [])"
  shows "\<exists>b e. p = b @ CHR ''.'' # e \<and> CHR ''.'' \<notin> set e \<and> os_path_sep \<notin> set e \<and>
               (\<exists>c \<in> set (takeWhile (\<lambda>x. x \<noteq> os_path_sep) (rev b)). c \<noteq> CHR ''.'')"
proof -
  from assms have gt: "rfind p os_path_sep < rfind p (CHR ''.'')"
    by (auto simp: os_path_splitext_def Let_def split: if_splits)
  have "CHR ''.'' \<in> set p"
  proof (rule ccontr)
    assume "CHR ''.'' \<notin> set p"
    then have "rfind p (CHR ''.'') = - 1"
      by (simp add: rfind_def)
    with gt rfind_bounds [of p os_path_sep] show False
      by simp
  qed
  then obtain b e where p: "p = b @ CHR ''.'' # e" and e: "CHR ''.'' \<notin> set e"
    by (meson split_list_last)
  have d: "rfind p (CHR ''.'') = int (length b)"
    unfolding p using e by (rule rfind_append_last)
  have n: "os_path_sep \<notin> set e"
  proof
    assume "os_path_sep \<in> set e"
    then have "int (length b) < rfind (b @ CHR ''.'' # e) os_path_sep"
      by (rule rfind_after)
    with gt d p show False
      by simp
  qed
  have "os_path_splitext (b @ CHR ''.'' # e) \<noteq> (b @ CHR ''.'' # e, [])"
    using assms p by simp
  then have "\<exists>c \<in> set (takeWhile (\<lambda>x. x \<noteq> os_path_sep) (rev b)). c \<noteq> CHR ''.''"
    using os_path_splitext_decomposed [OF e n, of b] by (simp split: if_splits)
  with p e n show ?thesis
    by blast
qed

lemma os_path_splitext_append:
  "fst (os_path_splitext p) @ snd (os_path_splitext p) = p"
  by (simp add: os_path_splitext_def Let_def)

text \<open>
  Claim C6. With \<open>FN_FROM_IMAGE\<close> and the suffix \<open>DO_NOT_USE\<close> the file name is the
  source file name without its extension, a dot and the configured extension; any other
  suffix is put between the base name and the dot as it is. The base name is the first
  part of \<open>os.path.splitext\<close>, whose two parts make up the source file name. The
  extension that is taken off is the text from the last dot on, where no separator follows
  that dot and the name before it, after its last separator, is not made of dots alone;
  a source file name without such a dot is kept whole.
\<close>

theorem get_filename_from_image:
  assumes "file_name_method self = FN_FROM_IMAGE"
    and "image_measurements workspace (''FileName_'' @ file_image_name self) = Some source"
  shows "get_filename self workspace =
           bind_result (get_filename_pathname self workspace)
             (\<lambda>pathname.
                Inr (os_path_join pathname
                       (fst (os_path_splitext source)
                        @ (if file_name_suffix self = DO_NOT_USE then []
                           else file_name_suffix self)
                        @ ''.'' @ file_format self))) \<and>
         fst (os_path_splitext source) @ snd (os_path_splitext source) = source \<and>
         (\<forall>b e. source = b @ CHR ''.'' # e \<and> CHR ''.'' \<notin> set e \<and> os_path_sep \<notin> set e \<and>
                (\<exists>c \<in> set (takeWhile (\<lambda>x. x \<noteq> os_path_sep) (rev b)). c \<noteq> CHR ''.'')
            \<longrightarrow> os_path_splitext source = (b, CHR ''.'' # e)) \<and>
         ((\<nexists>b e. source = b @ CHR ''.'' # e \<and> CHR ''.'' \<notin> set e \<and> os_path_sep \<notin> set e \<and>
                (\<exists>c \<in> set (takeWhile (\<lambda>x. x \<noteq> os_path_sep) (rev b)). c \<noteq> CHR ''.''))
            \<longrightarrow> os_path_splitext source = (source, []))"
proof (intro conjI allI impI)
  have "get_filename_name self workspace =
          Inr (fst (os_path_splitext source)
               @ (if file_name_suffix self = DO_NOT_USE then [] else file_name_suffix self)
               @ ''.'' @ file_format self)"
    using assms
    by (simp add: get_filename_name_def get_current_measurement_def FN_FROM_IMAGE_def
          FN_SINGLE_NAME_def FN_WITH_METADATA_def FN_SEQUENTIAL_def)
  then show "get_filename self workspace =
           bind_result (get_filename_pathname self workspace)
             (\<lambda>pathname.
                Inr (os_path_join pathname
                       (fst (os_path_splitext source)
                        @ (if file_name_suffix self = DO_NOT_USE then []
                           else file_name_suffix self)
                        @ ''.'' @ file_format self)))"
    by (simp add: get_filename_def)
next
  show "fst (os_path_splitext source) @ snd (os_path_splitext source) = source"
    by (rule os_path_splitext_append)
next
  fix b e
  assume h: "source = b @ CHR ''.'' # e \<and> CHR ''.'' \<notin> set e \<and> os_path_sep \<notin> set e \<and>
             (\<exists>c \<in> set (takeWhile (\<lambda>x. x \<noteq> os_path_sep) (rev b)). c \<noteq> CHR ''.'')"
  then have "os_path_splitext (b @ CHR ''.'' # e) = (b, CHR ''.'' # e)"
    using os_path_splitext_decomposed [of e b] by simp
  with h show "os_path_splitext source = (b, CHR ''.'' # e)"
    by simp
next
  assume "\<nexists>b e. source = b @ CHR ''.'' # e \<and> CHR ''.'' \<notin> set e \<and> os_path_sep \<notin> set e \<and>
                (\<exists>c \<in> set (takeWhile (\<lambda>x. x \<noteq> os_path_sep) (rev b)). c \<noteq> CHR ''.'')"
  then show "os_path_splitext source = (source, [])"
    using os_path_splitext_last_dot [of source] by blast
qed

theorem get_filename_from_image_witness:
  "get_filename default_settings example_workspace = Inr ''/out/img.01.bmp'' \<and>
   get_filename (default_settings\<lparr>file_name_suffix := ''_out''\<rparr>) example_workspace
     = Inr ''/out/img.01_out.bmp'' \<and>
   get_filename default_settings
     (example_workspace\<lparr>image_measurements := [''FileName_None'' \<mapsto> ''.hidden'']\<rparr>)
     = Inr ''/out/.hidden.bmp''"
proof -
  have p: "get_filename_pathname default_settings example_workspace = Inr ''/out''"
    by code_simp
  have p': "get_filename_pathname (default_settings\<lparr>file_name_suffix := ''_out''\<rparr>)
              example_workspace = Inr ''/out''"
    by code_simp
  have p'': "get_filename_pathname default_settings
               (example_workspace\<lparr>image_measurements := [''FileName_None'' \<mapsto> ''.hidden'']\<rparr>)
               = Inr ''/out''"
    by code_simp
  have j: "os_path_join ''/out'' ''img.01.bmp'' = ''/out/img.01.bmp''"
          "os_path_join ''/out'' ''img.01_out.bmp'' = ''/out/img.01_out.bmp''"
          "os_path_join ''/out'' ''.hidden.bmp'' = ''/out/.hidden.bmp''"
    by code_simp+
  have a: "file_name_method default_settings = FN_FROM_IMAGE"
          "file_name_method (default_settings\<lparr>file_name_suffix := ''_out''\<rparr>) = FN_FROM_IMAGE"
    by (simp_all add: default_settings_def)
  have b: "image_measurements example_workspace (''FileName_'' @ file_image_name default_settings)
             = Some ''img.01.tif''"
          "image_measurements example_workspace
             (''FileName_'' @ file_image_name (default_settings\<lparr>file_name_suffix := ''_out''\<rparr>))
             = Some ''img.01.tif''"
          "image_measurements
             (example_workspace\<lparr>image_measurements := [''FileName_None'' \<mapsto> ''.hidden'']\<rparr>)
             (''FileName_'' @ file_image_name default_settings) = Some ''.hidden''"
    by (simp_all add: default_settings_def example_workspace_def)
  have c: "file_name_suffix default_settings = DO_NOT_USE" "file_format default_settings = ''bmp''"
    "file_name_suffix (default_settings\<lparr>file_name_suffix := ''_out''\<rparr>) \<noteq> DO_NOT_USE"
    by (simp_all add: default_settings_def DO_NOT_USE_def FF_BMP_def)
  have d: "''img.01.tif'' = ''img.01'' @ CHR ''.'' # ''tif'' \<and> CHR ''.'' \<notin> set ''tif'' \<and>
           os_path_sep \<notin> set ''tif'' \<and>
           (\<exists>c \<in> set (takeWhile (\<lambda>x. x \<noteq> os_path_sep) (rev ''img.01'')). c \<noteq> CHR ''.'')"
    by (simp add: os_path_sep_def)
  have s: "os_path_splitext ''img.01.tif'' = (''img.01'', ''.tif'')"
    using get_filename_from_image [OF a(1) b(1)] d by blast
  have v: "os_path_splitext ''.hidden'' = (''.hidden'', [])"
    by code_simp
  have n: "\<nexists>b e. ''.hidden'' = b @ CHR ''.'' # e \<and> CHR ''.'' \<notin> set e \<and> os_path_sep \<notin> set e \<and>
                (\<exists>c \<in> set (takeWhile (\<lambda>x. x \<noteq> os_path_sep) (rev b)). c \<noteq> CHR ''.'')"
  proof
    assume "\<exists>b e. ''.hidden'' = b @ CHR ''.'' # e \<and> CHR ''.'' \<notin> set e \<and> os_path_sep \<notin> set e \<and>
                (\<exists>c \<in> set (takeWhile (\<lambda>x. x \<noteq> os_path_sep) (rev b)). c \<noteq> CHR ''.'')"
    then obtain b e where
      h: "''.hidden'' = b @ CHR ''.'' # e \<and> CHR ''.'' \<notin> set e \<and> os_path_sep \<notin> set e \<and>
          (\<exists>c \<in> set (takeWhile (\<lambda>x. x \<noteq> os_path_sep) (rev b)). c \<noteq> CHR ''.'')"
      by blast
    then have "os_path_splitext ''.hidden'' = (b, CHR ''.'' # e)"
      using get_filename_from_image [OF a(1) b(3)] by blast
    with v show False
      by simp
  qed
  have s': "os_path_splitext ''.hidden'' = (''.hidden'', [])"
    using get_filename_from_image [OF a(1) b(3)] n by blast
  show ?thesis
    using get_filename_from_image [OF a(1) b(1)] get_filename_from_image [OF a(2) b(2)]
          get_filename_from_image [OF a(1) b(3)]
    by (simp add: s s' p p' p'' j c DO_NOT_USE_def)
qed

subsection \<open>Subdirectories\<close>

text \<open>
  Claim C7 says that with \<open>create_subdirectories\<close> and one of the three naming methods
  the source path is always appended. With \<open>PC_WITH_IMAGE\<close> it is not: the measurement
  \<open>PathName_None\<close> is \<open>plate1\<close> and the file goes to the directory of the image.
\<close>

theorem get_filename_subdirectory_with_image_counterexample:
  "create_subdirectories
     (default_settings\<lparr>file_name_method := FN_WITH_METADATA, single_file_name := ''Illum'',
                        pathname_choice := PC_WITH_IMAGE, create_subdirectories := True\<rparr>) \<and>
   file_name_method
     (default_settings\<lparr>file_name_method := FN_WITH_METADATA, single_file_name := ''Illum'',
                        pathname_choice := PC_WITH_IMAGE, create_subdirectories := True\<rparr>)
     = FN_WITH_METADATA \<and>
   image_measurements (example_workspace\<lparr>apply_metadata := Inr\<rparr>) ''PathName_None''
     = Some ''plate1'' \<and>
   get_filename
     (default_settings\<lparr>file_name_method := FN_WITH_METADATA, single_file_name := ''Illum'',
                        pathname_choice := PC_WITH_IMAGE, create_subdirectories := True\<rparr>)
     (example_workspace\<lparr>apply_metadata := Inr\<rparr>)
     = Inr ''/prov/Illum.bmp''"
  by code_simp

lemma get_filename_name_create_subdirectories:
  "get_filename_name (self\<lparr>create_subdirectories := b\<rparr>) workspace
     = get_filename_name self workspace"
  by (simp add: get_filename_name_def Let_def cong: if_cong)

text \<open>
  Claim C7, amended. With \<open>create_subdirectories\<close>, one of the naming methods
  \<open>FN_FROM_IMAGE\<close>, \<open>FN_SEQUENTIAL\<close>, \<open>FN_WITH_METADATA\<close> and one of the path
  choices \<open>PC_DEFAULT\<close>, \<open>PC_CUSTOM\<close>, \<open>PC_WITH_METADATA\<close>, the recorded source path
  is joined to the directory with \<open>os.path.join\<close>: one separator is put between them
  unless the directory ends with one or is empty, and a source path that starts with the
  separator stands alone. With \<open>PC_WITH_IMAGE\<close> the flag changes nothing.
\<close>

theorem get_filename_subdirectory:
  assumes "create_subdirectories self"
    and "file_name_method self \<in> {FN_FROM_IMAGE, FN_SEQUENTIAL, FN_WITH_METADATA}"
  shows "(pathname_choice self \<in> {PC_DEFAULT, PC_CUSTOM, PC_WITH_METADATA} \<and>
          get_filename_directory self workspace = Inr dir \<and>
          image_measurements workspace (''PathName_'' @ file_image_name self)
            = Some orig_pathname \<longrightarrow>
            get_filename_pathname self workspace = Inr (os_path_join dir orig_pathname) \<and>
            get_filename self workspace =
              bind_result (get_filename_name self workspace)
                (\<lambda>filename. Inr (os_path_join (os_path_join dir orig_pathname) filename)) \<and>
            os_path_join dir orig_pathname =
              (if take 1 orig_pathname = [os_path_sep] then orig_pathname
               else if dir = [] \<or> last dir = os_path_sep then dir @ orig_pathname
               else dir @ [os_path_sep] @ orig_pathname)) \<and>
         (pathname_choice self = PC_WITH_IMAGE \<longrightarrow>
            get_filename self workspace =
              get_filename (self\<lparr>create_subdirectories := False\<rparr>) workspace)"
proof (intro conjI impI)
  assume h: "pathname_choice self \<in> {PC_DEFAULT, PC_CUSTOM, PC_WITH_METADATA} \<and>
          get_filename_directory self workspace = Inr dir \<and>
          image_measurements workspace (''PathName_'' @ file_image_name self)
            = Some orig_pathname"
  show p: "get_filename_pathname self workspace = Inr (os_path_join dir orig_pathname)"
    using assms h by (simp add: get_filename_pathname_def get_current_measurement_def)
  show "get_filename self workspace =
           bind_result (get_filename_name self workspace)
             (\<lambda>filename. Inr (os_path_join (os_path_join dir orig_pathname) filename))"
    using p by (simp add: get_filename_def)
  show "os_path_join dir orig_pathname =
              (if take 1 orig_pathname = [os_path_sep] then orig_pathname
               else if dir = [] \<or> last dir = os_path_sep then dir @ orig_pathname
               else dir @ [os_path_sep] @ orig_pathname)"
    by (simp add: os_path_join_def)
next
  assume h: "pathname_choice self = PC_WITH_IMAGE"
  then have "get_filename_pathname (self\<lparr>create_subdirectories := False\<rparr>) workspace
               = get_filename_pathname self workspace"
    by (simp add: get_filename_pathname_def PC_WITH_IMAGE_def PC_DEFAULT_def PC_CUSTOM_def
          PC_WITH_METADATA_def)
  then show "get_filename self workspace =
               get_filename (self\<lparr>create_subdirectories := False\<rparr>) workspace"
    by (simp add: get_filename_def get_filename_name_create_subdirectories)
qed

theorem get_filename_subdirectory_witness:
  "get_filename_pathname (default_settings\<lparr>create_subdirectories := True\<rparr>) example_workspace
     = Inr ''/out/plate1'' \<and>
   get_filename (default_settings\<lparr>create_subdirectories := True\<rparr>) example_workspace
     = Inr ''/out/plate1/img.01.bmp'' \<and>
   get_filename (default_settings\<lparr>create_subdirectories := True,
                                   pathname_choice := PC_WITH_IMAGE\<rparr>) example_workspace
     = Inr ''/data/plate1/img.01.bmp''"
proof -
  have a: "create_subdirectories (default_settings\<lparr>create_subdirectories := True\<rparr>)"
          "create_subdirectories (default_settings\<lparr>create_subdirectories := True,
                                                    pathname_choice := PC_WITH_IMAGE\<rparr>)"
    by simp_all
  have b: "file_name_method (default_settings\<lparr>create_subdirectories := True\<rparr>)
             \<in> {FN_FROM_IMAGE, FN_SEQUENTIAL, FN_WITH_METADATA}"
          "file_name_method (default_settings\<lparr>create_subdirectories := True,
                                                pathname_choice := PC_WITH_IMAGE\<rparr>)
             \<in> {FN_FROM_IMAGE, FN_SEQUENTIAL, FN_WITH_METADATA}"
    by (simp_all add: default_settings_def)
  have c: "pathname_choice (default_settings\<lparr>create_subdirectories := True\<rparr>)
             \<in> {PC_DEFAULT, PC_CUSTOM, PC_WITH_METADATA}"
          "pathname_choice (default_settings\<lparr>create_subdirectories := True,
                                               pathname_choice := PC_WITH_IMAGE\<rparr>)
             = PC_WITH_IMAGE"
    by (simp_all add: default_settings_def)
  have d: "get_filename_directory (default_settings\<lparr>create_subdirectories := True\<rparr>)
             example_workspace = Inr ''/out''"
    by code_simp
  have e: "image_measurements example_workspace
             (''PathName_'' @ file_image_name (default_settings\<lparr>create_subdirectories := True\<rparr>))
             = Some ''plate1''"
    by (simp add: default_settings_def example_workspace_def)
  have n: "get_filename_name (default_settings\<lparr>create_subdirectories := True\<rparr>)
             example_workspace = Inr ''img.01.bmp''"
    by code_simp
  have j: "os_path_join ''/out'' ''plate1'' = ''/out/plate1''"
          "os_path_join ''/out/plate1'' ''img.01.bmp'' = ''/out/plate1/img.01.bmp''"
    by code_simp+
  have f: "get_filename (default_settings\<lparr>pathname_choice := PC_WITH_IMAGE,
                                   create_subdirectories := False\<rparr>) example_workspace
     = Inr ''/data/plate1/img.01.bmp''"
    by code_simp
  have "get_filename_pathname (default_settings\<lparr>create_subdirectories := True\<rparr>)
          example_workspace = Inr (os_path_join ''/out'' ''plate1'') \<and>
        get_filename (default_settings\<lparr>create_subdirectories := True\<rparr>) example_workspace =
          bind_result
            (get_filename_name (default_settings\<lparr>create_subdirectories := True\<rparr>)
               example_workspace)
            (\<lambda>filename. Inr (os_path_join (os_path_join ''/out'' ''plate1'') filename))"
    using get_filename_subdirectory
            [OF a(1) b(1), of example_workspace "''/out''" "''plate1''"] c(1) d e
    by blast
  then have g: "get_filename_pathname (default_settings\<lparr>create_subdirectories := True\<rparr>)
                  example_workspace = Inr ''/out/plate1''"
               "get_filename (default_settings\<lparr>create_subdirectories := True\<rparr>)
                  example_workspace = Inr ''/out/plate1/img.01.bmp''"
    by (simp_all add: n j)
  have "get_filename (default_settings\<lparr>create_subdirectories := True,
                                   pathname_choice := PC_WITH_IMAGE\<rparr>) example_workspace =
        get_filename (default_settings\<lparr>create_subdirectories := True,
                                   pathname_choice := PC_WITH_IMAGE,
                                   create_subdirectories := False\<rparr>) example_workspace"
    using get_filename_subdirectory [OF a(2) b(2), of example_workspace] c(2)
    by blast
  then have "get_filename (default_settings\<lparr>create_subdirectories := True,
                                   pathname_choice := PC_WITH_IMAGE\<rparr>) example_workspace
               = Inr ''/data/plate1/img.01.bmp''"
    by (simp add: f)
  with g show ?thesis
    by simp
qed

subsection \<open>Sequential numbers\<close>

lemma digit_cases:
  assumes "d < (10::nat)"
  shows "d \<in> {0, 1, 2, 3, 4, 5, 6, 7, 8, 9}"
  using assms by auto

lemma digit_char_value:
  assumes "d < 10"
  shows "of_char (digit_char d) = 48 + d"
  using digit_cases [OF assms] by (auto simp: digit_char_def)

lemma digit_char_not_zero:
  assumes "d < 10" and "0 < d"
  shows "digit_char d \<noteq> CHR ''0''"
  using digit_cases [OF assms(1)] assms(2) by (auto simp: digit_char_def)

lemma digit_char_not_minus:
  assumes "d < 10"
  shows "digit_char d \<noteq> CHR ''-''"
  using digit_cases [OF assms] by (auto simp: digit_char_def)

lemma format_nat_not_Nil: "format_nat n \<noteq> []"
  by (subst format_nat.simps) simp

lemma format_nat_decode:
  "foldl (\<lambda>a c. 10 * a + (of_char c - 48)) 0 (format_nat n) = n"
proof (induction n rule: format_nat.induct)
  case (1 n)
  show ?case
  proof (cases "n < 10")
    case True
    then show ?thesis
      by (subst format_nat.simps) (simp add: digit_char_value)
  next
    case False
    then have "foldl (\<lambda>a c. 10 * a + (of_char c - 48)) 0 (format_nat (n div 10)) = n div 10"
      using "1.IH" by simp
    with False show ?thesis
      by (subst format_nat.simps) (simp add: digit_char_value)
  qed
qed

lemma format_nat_inj:
  assumes "format_nat a = format_nat b"
  shows "a = b"
proof -
  have "a = foldl (\<lambda>a c. 10 * a + (of_char c - 48)) 0 (format_nat a)"
    by (simp only: format_nat_decode)
  also have "\<dots> = foldl (\<lambda>a c. 10 * a + (of_char c - 48)) 0 (format_nat b)"
    by (simp only: assms)
  also have "\<dots> = b"
    by (rule format_nat_decode)
  finally show ?thesis .
qed

lemma format_nat_hd_not_minus: "hd (format_nat n) \<noteq> CHR ''-''"
proof (induction n rule: format_nat.induct)
  case (1 n)
  show ?case
  proof (cases "n < 10")
    case True
    then show ?thesis
      by (subst format_nat.simps) (simp add: digit_char_not_minus)
  next
    case False
    with "1.IH" show ?thesis
      by (subst format_nat.simps) (simp add: format_nat_not_Nil)
  qed
qed

lemma format_nat_no_padding:
  assumes "0 < n"
  shows "hd (format_nat n) \<noteq> CHR ''0''"
  using assms
proof (induction n rule: format_nat.induct)
  case (1 n)
  show ?case
  proof (cases "n < 10")
    case True
    with "1.prems" show ?thesis
      by (subst format_nat.simps) (simp add: digit_char_not_zero)
  next
    case False
    then have "0 < n div 10" by simp
    with "1.IH" False have "hd (format_nat (n div 10)) \<noteq> CHR ''0''" by simp
    with False show ?thesis
      by (subst format_nat.simps) (simp add: format_nat_not_Nil)
  qed
qed

lemma format_d_inj:
  assumes "format_d i = format_d j"
  shows "i = j"
proof -
  have neg: "CHR ''-'' # xs \<noteq> format_nat n" for xs n
    using format_nat_hd_not_minus [of n] by (metis list.sel(1))
  show ?thesis
  proof (cases "i < 0")
    case True
    show ?thesis
    proof (cases "j < 0")
      case True
      with \<open>i < 0\<close> assms have "nat (- i) = nat (- j)"
        by (simp add: format_d_def format_nat_inj)
      with True \<open>i < 0\<close> show ?thesis by simp
    next
      case False
      with \<open>i < 0\<close> assms neg show ?thesis
        by (simp add: format_d_def)
    qed
  next
    case False
    show ?thesis
    proof (cases "j < 0")
      case True
      with \<open>\<not> i < 0\<close> assms neg [of "format_nat (nat (- j))" "nat i"] show ?thesis
        by (simp add: format_d_def)
    next
      case False
      with \<open>\<not> i < 0\<close> assms have "nat i = nat j"
        by (simp add: format_d_def format_nat_inj)
      with False \<open>\<not> i < 0\<close> show ?thesis by simp
    qed
  qed
qed

lemma get_filename_pathname_image_set_number:
  "get_filename_pathname self (workspace\<lparr>image_set_number := n\<rparr>)
     = get_filename_pathname self workspace"
proof -
  have "get_filename_directory self (workspace\<lparr>image_set_number := n\<rparr>)
          = get_filename_directory self workspace"
    by (simp add: get_filename_directory_def cong: if_cong)
  then show ?thesis
    by (simp add: get_filename_pathname_def get_current_measurement_def
          get_legacy_field_def get_image_def cong: if_cong)
qed

text \<open>
  Claim C5. With \<open>FN_SEQUENTIAL\<close> the file name is the single file name followed by
  the sequence number \<open>image_set_number + 1\<close> in decimal, without padding, then the dot
  and the extension. The directory does not depend on the sequence number, so the results
  for two sequence numbers differ in the number only, and different numbers give
  different texts.
\<close>

theorem get_filename_sequential:
  assumes "file_name_method self = FN_SEQUENTIAL"
  shows "get_filename self (workspace\<lparr>image_set_number := n\<rparr>) =
           bind_result (get_filename_pathname self workspace)
             (\<lambda>pathname.
                Inr (os_path_join pathname
                       (single_file_name self @ format_d (n + 1) @ ''.'' @ file_format self))) \<and>
         (format_d (n + 1) = format_d (m + 1) \<longrightarrow> n = m) \<and>
         (0 \<le> n \<longrightarrow>
            foldl (\<lambda>a c. 10 * a + (of_char c - 48)) 0 (format_d (n + 1)) = nat (n + 1) \<and>
            hd (format_d (n + 1)) \<noteq> CHR ''0'')"
proof (intro conjI impI)
  have "get_filename_name self (workspace\<lparr>image_set_number := n\<rparr>) =
          Inr (single_file_name self @ format_d (n + 1) @ ''.'' @ file_format self)"
    using assms
    by (simp add: get_filename_name_def FN_SEQUENTIAL_def FN_SINGLE_NAME_def
          FN_WITH_METADATA_def)
  then show "get_filename self (workspace\<lparr>image_set_number := n\<rparr>) =
           bind_result (get_filename_pathname self workspace)
             (\<lambda>pathname.
                Inr (os_path_join pathname
                       (single_file_name self @ format_d (n + 1) @ ''.'' @ file_format self)))"
    by (simp add: get_filename_def get_filename_pathname_image_set_number)
next
  assume "format_d (n + 1) = format_d (m + 1)"
  then have "n + 1 = m + 1" by (rule format_d_inj)
  then show "n = m" by simp
next
  assume "0 \<le> n"
  then show "foldl (\<lambda>a c. 10 * a + (of_char c - 48)) 0 (format_d (n + 1)) = nat (n + 1)"
    by (simp add: format_d_def format_nat_decode)
next
  assume "0 \<le> n"
  then have "0 < nat (n + 1)" by simp
  then have "hd (format_nat (nat (n + 1))) \<noteq> CHR ''0''"
    by (rule format_nat_no_padding)
  with \<open>0 \<le> n\<close> show "hd (format_d (n + 1)) \<noteq> CHR ''0''"
    by (simp add: format_d_def)
qed

theorem get_filename_sequential_witness:
  "get_filename (default_settings\<lparr>file_name_method := FN_SEQUENTIAL\<rparr>)
     (example_workspace\<lparr>image_set_number := 8\<rparr>) = Inr ''/out/OrigBlue9.bmp'' \<and>
   get_filename (default_settings\<lparr>file_name_method := FN_SEQUENTIAL\<rparr>)
     (example_workspace\<lparr>image_set_number := 9\<rparr>) = Inr ''/out/OrigBlue10.bmp'' \<and>
   format_d 9 \<noteq> format_d 10"
proof -
  have a: "file_name_method (default_settings\<lparr>file_name_method := FN_SEQUENTIAL\<rparr>)
             = FN_SEQUENTIAL"
    by simp
  have p: "get_filename_pathname (default_settings\<lparr>file_name_method := FN_SEQUENTIAL\<rparr>)
             example_workspace = Inr ''/out''"
    by code_simp
  have f: "format_d 9 = ''9''" "format_d 10 = ''10''"
    by code_simp+
  have j: "os_path_join ''/out'' ''OrigBlue9.bmp'' = ''/out/OrigBlue9.bmp''"
          "os_path_join ''/out'' ''OrigBlue10.bmp'' = ''/out/OrigBlue10.bmp''"
    by code_simp+
  have s: "single_file_name (default_settings\<lparr>file_name_method := FN_SEQUENTIAL\<rparr>)
             = ''OrigBlue''"
          "file_format (default_settings\<lparr>file_name_method := FN_SEQUENTIAL\<rparr>) = ''bmp''"
    by (simp_all add: default_settings_def FF_BMP_def)
  show ?thesis
    using get_filename_sequential [OF a, where workspace = example_workspace and n = 8 and m = 9]
          get_filename_sequential [OF a, where workspace = example_workspace and n = 9 and m = 8]
    by (simp add: p f j s)
qed

subsection \<open>Saving on the first cycle only\<close>

lemma run_image_not_first:
  assumes "when_to_save self = WS_FIRST_CYCLE"
    and "isl_legacy_fields (image_set_list workspace) (module_key self) = Some d"
    and "d ''FIRST_IMAGE'' = Some False"
  shows "run_image self workspace = (None, workspace)"
  using assms by (simp add: run_image_def get_dictionary_def)

lemma run_images_not_first:
  assumes "when_to_save self = WS_FIRST_CYCLE"
    and "isl_legacy_fields (image_set_list workspace) (module_key self) = Some d"
    and "d ''FIRST_IMAGE'' = Some False"
  shows "run_images self n workspace = workspace"
proof (induction n)
  case 0
  show ?case by simp
next
  case (Suc n)
  then show ?case
    by (simp add: run_image_not_first [OF assms])
qed

lemma run_image_first:
  assumes "when_to_save self = WS_FIRST_CYCLE"
    and "isl_legacy_fields (image_set_list workspace) (module_key self) = Some d"
    and "d ''FIRST_IMAGE'' = Some True"
  shows "run_image self workspace =
           (save_image_raises workspace (save_image_calls workspace),
            workspace\<lparr>image_set_list :=
                         (image_set_list workspace)\<lparr>isl_legacy_fields :=
                            (isl_legacy_fields (image_set_list workspace))
                              (module_key self \<mapsto> d(''FIRST_IMAGE'' \<mapsto> False))\<rparr>,
                       save_image_calls := save_image_calls workspace + 1\<rparr>)"
  using assms by (simp add: run_image_def get_dictionary_def save_image_def)

text \<open>
  Claim C8. With \<open>WS_FIRST_CYCLE\<close>, every \<open>prepare_group\<close> on an image set list that
  holds the dictionary of the module sets \<open>FIRST_IMAGE\<close> to true, whatever it was. The
  first \<open>run_image\<close> after it invokes \<open>save_image\<close> and clears the flag; no later
  \<open>run_image\<close> of the group invokes it: after any number of cycles, one or more,
  \<open>save_image\<close> has been invoked exactly once more, also when that invocation raised,
  and the dictionary is there for the next \<open>prepare_group\<close>.
\<close>

theorem run_image_first_cycle_once:
  assumes "when_to_save self = WS_FIRST_CYCLE"
    and "isl_legacy_fields (image_set_list workspace) (module_key self) = Some d"
  shows "\<exists>started.
           prepare_group self (image_set_list workspace) = Inr started \<and>
           isl_legacy_fields started (module_key self) = Some (d(''FIRST_IMAGE'' \<mapsto> True)) \<and>
           run_images self 0 (workspace\<lparr>image_set_list := started\<rparr>)
             = workspace\<lparr>image_set_list := started\<rparr> \<and>
           fst (run_image self (workspace\<lparr>image_set_list := started\<rparr>))
             = save_image_raises workspace (save_image_calls workspace) \<and>
           (\<forall>n. save_image_calls (run_images self (Suc n) (workspace\<lparr>image_set_list := started\<rparr>))
                  = save_image_calls workspace + 1 \<and>
                isl_legacy_fields
                  (image_set_list (run_images self (Suc n) (workspace\<lparr>image_set_list := started\<rparr>)))
                  (module_key self) = Some (d(''FIRST_IMAGE'' \<mapsto> False)) \<and>
                run_image self (run_images self (Suc n) (workspace\<lparr>image_set_list := started\<rparr>))
                  = (None, run_images self (Suc n) (workspace\<lparr>image_set_list := started\<rparr>)))"
proof -
  define started where
    "started = (image_set_list workspace)\<lparr>isl_legacy_fields :=
                 (isl_legacy_fields (image_set_list workspace))
                   (module_key self \<mapsto> d(''FIRST_IMAGE'' \<mapsto> True))\<rparr>"
  define w1 where "w1 = workspace\<lparr>image_set_list := started\<rparr>"
  define w2 where
    "w2 = w1\<lparr>image_set_list :=
               (image_set_list w1)\<lparr>isl_legacy_fields :=
                  (isl_legacy_fields (image_set_list w1))
                    (module_key self \<mapsto> (d(''FIRST_IMAGE'' \<mapsto> True))(''FIRST_IMAGE'' \<mapsto> False))\<rparr>,
             save_image_calls := save_image_calls w1 + 1\<rparr>"
  have p: "prepare_group self (image_set_list workspace) = Inr started"
    using assms(2) by (simp add: prepare_group_def get_dictionary_def started_def)
  have s: "isl_legacy_fields started (module_key self) = Some (d(''FIRST_IMAGE'' \<mapsto> True))"
    by (simp add: started_def)
  have d1: "isl_legacy_fields (image_set_list w1) (module_key self)
              = Some (d(''FIRST_IMAGE'' \<mapsto> True))"
    by (simp add: w1_def s)
  have t: "(d(''FIRST_IMAGE'' \<mapsto> True)) ''FIRST_IMAGE'' = Some True"
    by simp
  have r1: "run_image self w1 = (save_image_raises w1 (save_image_calls w1), w2)"
    unfolding w2_def by (rule run_image_first [OF assms(1) d1 t])
  have d2: "isl_legacy_fields (image_set_list w2) (module_key self)
              = Some (d(''FIRST_IMAGE'' \<mapsto> False))"
    by (simp add: w2_def)
  have f: "(d(''FIRST_IMAGE'' \<mapsto> False)) ''FIRST_IMAGE'' = Some False"
    by simp
  have later: "run_images self (Suc n) w1 = w2" for n
    by (simp add: r1 run_images_not_first [OF assms(1) d2 f])
  have c2: "save_image_calls w2 = save_image_calls workspace + 1"
    by (simp add: w2_def w1_def)
  have idle: "run_image self w2 = (None, w2)"
    by (rule run_image_not_first [OF assms(1) d2 f])
  have "fst (run_image self w1) = save_image_raises w1 (save_image_calls w1)"
    by (simp only: r1 fst_conv)
  moreover have "save_image_raises w1 (save_image_calls w1)
                   = save_image_raises workspace (save_image_calls workspace)"
    by (simp add: w1_def)
  ultimately have e: "fst (run_image self w1)
                        = save_image_raises workspace (save_image_calls workspace)"
    by (rule trans)
  show ?thesis
  proof (intro exI conjI allI)
    show "prepare_group self (image_set_list workspace) = Inr started" by (rule p)
    show "isl_legacy_fields started (module_key self) = Some (d(''FIRST_IMAGE'' \<mapsto> True))"
      by (rule s)
    show "run_images self 0 (workspace\<lparr>image_set_list := started\<rparr>)
            = workspace\<lparr>image_set_list := started\<rparr>"
      by simp
    show "fst (run_image self (workspace\<lparr>image_set_list := started\<rparr>))
            = save_image_raises workspace (save_image_calls workspace)"
      using e unfolding w1_def .
  next
    fix n
    show "save_image_calls (run_images self (Suc n) (workspace\<lparr>image_set_list := started\<rparr>))
            = save_image_calls workspace + 1"
      using later [of n] c2 unfolding w1_def by simp
    show "isl_legacy_fields
            (image_set_list (run_images self (Suc n) (workspace\<lparr>image_set_list := started\<rparr>)))
            (module_key self) = Some (d(''FIRST_IMAGE'' \<mapsto> False))"
      using later [of n] d2 unfolding w1_def by simp
    show "run_image self (run_images self (Suc n) (workspace\<lparr>image_set_list := started\<rparr>))
            = (None, run_images self (Suc n) (workspace\<lparr>image_set_list := started\<rparr>))"
      using later [of n] idle unfolding w1_def by simp
  qed
qed

theorem run_image_first_cycle_once_witness:
  "prepare_group (default_settings\<lparr>when_to_save := WS_FIRST_CYCLE\<rparr>)
     (image_set_list example_workspace)
   = Inr \<lparr>isl_legacy_fields =
            [''SaveImages_1'' \<mapsto> [''FIRST_IMAGE'' \<mapsto> True]]\<rparr> \<and>
   save_image_calls
     (run_images (default_settings\<lparr>when_to_save := WS_FIRST_CYCLE\<rparr>) (Suc 2)
        (example_workspace\<lparr>image_set_list :=
           \<lparr>isl_legacy_fields =
              [''SaveImages_1'' \<mapsto> [''FIRST_IMAGE'' \<mapsto> True]]\<rparr>\<rparr>))
   = 1"
proof -
  have k: "module_key (default_settings\<lparr>when_to_save := WS_FIRST_CYCLE\<rparr>) = ''SaveImages_1''"
    by code_simp
  have a: "when_to_save (default_settings\<lparr>when_to_save := WS_FIRST_CYCLE\<rparr>) = WS_FIRST_CYCLE"
    by simp
  have b: "isl_legacy_fields (image_set_list example_workspace)
             (module_key (default_settings\<lparr>when_to_save := WS_FIRST_CYCLE\<rparr>))
             = Some Map.empty"
    by (simp add: k example_workspace_def)
  have p: "prepare_group (default_settings\<lparr>when_to_save := WS_FIRST_CYCLE\<rparr>)
             (image_set_list example_workspace)
           = Inr \<lparr>isl_legacy_fields =
                    [''SaveImages_1'' \<mapsto> [''FIRST_IMAGE'' \<mapsto> True]]\<rparr>"
    by (simp add: prepare_group_def get_dictionary_def k example_workspace_def)
  have c: "save_image_calls example_workspace = 0"
    by (simp add: example_workspace_def)
  from run_image_first_cycle_once [OF a b] obtain started where
    s: "prepare_group (default_settings\<lparr>when_to_save := WS_FIRST_CYCLE\<rparr>)
          (image_set_list example_workspace) = Inr started" and
    n: "\<And>n. save_image_calls
              (run_images (default_settings\<lparr>when_to_save := WS_FIRST_CYCLE\<rparr>) (Suc n)
                 (example_workspace\<lparr>image_set_list := started\<rparr>))
            = save_image_calls example_workspace + 1"
    by blast
  from s p have "started = \<lparr>isl_legacy_fields =
                    [''SaveImages_1'' \<mapsto> [''FIRST_IMAGE'' \<mapsto> True]]\<rparr>"
    by simp
  with n [of 2] c p show ?thesis
    by simp
qed

subsection \<open>The upgrade from revision 13\<close>

lemma upgrade_13_loop_unchanged:
  assumes "\<forall>i \<in> set is. i < length setting_values"
    and "length new_setting_values = length setting_values"
  shows "upgrade_13_loop setting_values new_setting_values is = Inr new_setting_values"
  using assms
  by (induction "is") (simp_all add: index_def Let_def)

lemma upgrade_13_loop_short:
  assumes "length setting_values \<le> 12"
  shows "upgrade_13_loop setting_values setting_values [3, 12] = Inl IndexError"
  using assms by (simp add: index_def Let_def)

lemma upgrade_14_returns:
  assumes "12 < length setting_values" and "setting_values ! 1 \<noteq> []"
  shows "\<exists>new. upgrade_14 isdigit find_metadata_tokens setting_values = Inr new \<and>
               length new = length setting_values + 4 \<and>
               new ! 0 \<in> {IF_FIGURE, IF_MOVIE, IF_CROPPING, IF_MASK, IF_IMAGE}"
  using assms
  by (auto simp: upgrade_14_def index_def Let_def)

lemma upgrade_14_empty_name:
  assumes "12 < length setting_values" and "setting_values ! 1 = []"
  shows "upgrade_14 isdigit find_metadata_tokens setting_values = Inl IndexError"
  using assms
  by (simp add: upgrade_14_def index_def Let_def)

text \<open>
  Claim C9 says that at revision 13 the call returns the setting values as they came in,
  with only the revision number moved on. It does not: the same call goes on through the
  rewrite of revision 14 and returns the rewritten list with revision 1.
\<close>

theorem backwards_compatibilize_revision_13_counterexample:
  "backwards_compatibilize str_isdigit (\<lambda>t. [])
     [''OrigBlue'', ''N'', ''tif'', [CHR 0x5C], ''.'', ''8'', ''Y'', ''E'', ''1'', ''N'',
      ''gray'', ''N'', [CHR 0x5C], ''N'']
     13 ''SaveImages'' True
   = Inr ([''Image'', ''OrigBlue'', ''OrigBlue'', ''Sequential numbers'', ''None'', ''None'',
           ''tif'', [CHR 0x5C], ''Default output directory'', ''None'', ''8'', ''Y'', ''E'',
           ''1'', ''N'', ''gray'', [CHR 0x5C], ''N''], 1, False) \<and>
   backwards_compatibilize str_isdigit (\<lambda>t. [])
     [''OrigBlue'', ''N'', ''tif'', [CHR 0x5C], ''.'', ''8'', ''Y'', ''E'', ''1'', ''N'',
      ''gray'', ''N'', [CHR 0x5C], ''N'']
     13 ''SaveImages'' True
   \<noteq> Inr ([''OrigBlue'', ''N'', ''tif'', [CHR 0x5C], ''.'', ''8'', ''Y'', ''E'', ''1'', ''N'',
            ''gray'', ''N'', [CHR 0x5C], ''N''], 14, True)"
proof -
  have "backwards_compatibilize str_isdigit (\<lambda>t. [])
     [''OrigBlue'', ''N'', ''tif'', [CHR 0x5C], ''.'', ''8'', ''Y'', ''E'', ''1'', ''N'',
      ''gray'', ''N'', [CHR 0x5C], ''N'']
     13 ''SaveImages'' True
   = Inr ([''Image'', ''OrigBlue'', ''OrigBlue'', ''Sequential numbers'', ''None'', ''None'',
           ''tif'', [CHR 0x5C], ''Default output directory'', ''None'', ''8'', ''Y'', ''E'',
           ''1'', ''N'', ''gray'', [CHR 0x5C], ''N''], 1, False)"
    by code_simp
  then show ?thesis
    by simp
qed

text \<open>
  Claim C9, amended. A MATLAB setting list of revision 13 without the setting 12 raises
  \<open>IndexError\<close>. With it, the call does not stop at revision 14: it goes on through the
  rewrite of revision 14, so it never returns the list it was given; it raises
  \<open>IndexError\<close> where the setting 1 is empty, and otherwise returns a list of the current
  format, four values longer than the input, with revision 1 and \<open>from_matlab\<close> false.
  Where neither the setting 3 nor the setting 12 is a single backslash, the result is that
  of the same list at revision 14. What becomes of a single backslash there is left open.
\<close>

theorem backwards_compatibilize_revision_13:
  "(length setting_values \<le> 12 \<longrightarrow>
      backwards_compatibilize isdigit find_metadata_tokens setting_values 13 module_name True
        = Inl IndexError) \<and>
   (12 < length setting_values \<longrightarrow>
      (\<forall>r b. backwards_compatibilize isdigit find_metadata_tokens setting_values 13
                module_name True \<noteq> Inr (setting_values, r, b)) \<and>
      (setting_values ! 1 = [] \<longrightarrow>
         backwards_compatibilize isdigit find_metadata_tokens setting_values 13 module_name True
           = Inl IndexError) \<and>
      (setting_values ! 1 \<noteq> [] \<longrightarrow>
         (\<exists>new. backwards_compatibilize isdigit find_metadata_tokens setting_values 13
                  module_name True = Inr (new, 1, False) \<and>
                length new = length setting_values + 4 \<and>
                new ! 0 \<in> {IF_FIGURE, IF_MOVIE, IF_CROPPING, IF_MASK, IF_IMAGE})) \<and>
      (setting_values ! 3 \<noteq> [CHR 0x5C] \<and> setting_values ! 12 \<noteq> [CHR 0x5C] \<longrightarrow>
         backwards_compatibilize isdigit find_metadata_tokens setting_values 13 module_name True
           = backwards_compatibilize isdigit find_metadata_tokens setting_values 14
               module_name True))"
proof (intro conjI impI)
  assume "length setting_values \<le> 12"
  then show "backwards_compatibilize isdigit find_metadata_tokens setting_values 13
               module_name True = Inl IndexError"
    by (simp add: backwards_compatibilize_def upgrade_13_loop_short del: upgrade_13_loop.simps)
next
  assume l: "12 < length setting_values"
  have u: "upgrade_13_loop setting_values setting_values [3, 12] = Inr setting_values"
    using l by (intro upgrade_13_loop_unchanged) simp_all
  have r: "backwards_compatibilize isdigit find_metadata_tokens setting_values 13
             module_name True =
           bind_result (upgrade_14 isdigit find_metadata_tokens setting_values)
             (\<lambda>new_setting_values. Inr (new_setting_values, 1, False))"
    by (simp add: backwards_compatibilize_def u del: upgrade_13_loop.simps)
  show e: "backwards_compatibilize isdigit find_metadata_tokens setting_values 13
             module_name True = Inl IndexError"
    if "setting_values ! 1 = []"
    using upgrade_14_empty_name [OF l that, of isdigit find_metadata_tokens]
    by (simp add: r)
  show n: "\<exists>new. backwards_compatibilize isdigit find_metadata_tokens setting_values 13
                  module_name True = Inr (new, 1, False) \<and>
                length new = length setting_values + 4 \<and>
                new ! 0 \<in> {IF_FIGURE, IF_MOVIE, IF_CROPPING, IF_MASK, IF_IMAGE}"
    if "setting_values ! 1 \<noteq> []"
    using upgrade_14_returns [OF l that, of isdigit find_metadata_tokens]
    by (auto simp: r)
  show "\<forall>r b. backwards_compatibilize isdigit find_metadata_tokens setting_values 13
                module_name True \<noteq> Inr (setting_values, r, b)"
  proof (cases "setting_values ! 1 = []")
    case True
    then show ?thesis
      using e by simp
  next
    case False
    then show ?thesis
      using n by auto
  qed
  show "backwards_compatibilize isdigit find_metadata_tokens setting_values 13 module_name True
           = backwards_compatibilize isdigit find_metadata_tokens setting_values 14
               module_name True"
    by (simp add: backwards_compatibilize_def u del: upgrade_13_loop.simps)
qed

theorem backwards_compatibilize_revision_13_witness:
  "backwards_compatibilize str_isdigit (\<lambda>t. [])
     [''OrigBlue'', ''N'', ''_out'', ''tif'', ''.'', ''8'', ''Y'', ''E'', ''1'', ''N'',
      ''gray'', ''N'', ''N'', ''N'']
     13 ''SaveImages'' True
   = Inr ([''Image'', ''OrigBlue'', ''OrigBlue'', ''Sequential numbers'', ''None'', ''None'',
           ''_out'', ''tif'', ''Default output directory'', ''None'', ''8'', ''Y'', ''E'',
           ''1'', ''N'', ''gray'', ''N'', ''N''], 1, False) \<and>
   backwards_compatibilize str_isdigit (\<lambda>t. [])
     [''OrigBlue'', [], ''_out'', ''tif'', ''.'', ''8'', ''Y'', ''E'', ''1'', ''N'',
      ''gray'', ''N'', ''N'', ''N'']
     13 ''SaveImages'' True
   = Inl IndexError \<and>
   backwards_compatibilize str_isdigit (\<lambda>t. [])
     [''OrigBlue'', ''N'', ''_out'', ''tif'', ''.'', ''8'', ''Y'', ''E'', ''1'', ''N'',
      ''gray'', ''N'']
     13 ''SaveImages'' True
   = Inl IndexError"
proof -
  have v: "backwards_compatibilize str_isdigit (\<lambda>t. [])
     [''OrigBlue'', ''N'', ''_out'', ''tif'', ''.'', ''8'', ''Y'', ''E'', ''1'', ''N'',
      ''gray'', ''N'', ''N'', ''N'']
     14 ''SaveImages'' True
   = Inr ([''Image'', ''OrigBlue'', ''OrigBlue'', ''Sequential numbers'', ''None'', ''None'',
           ''_out'', ''tif'', ''Default output directory'', ''None'', ''8'', ''Y'', ''E'',
           ''1'', ''N'', ''gray'', ''N'', ''N''], 1, False)"
    by code_simp
  have "backwards_compatibilize str_isdigit (\<lambda>t. [])
     [''OrigBlue'', ''N'', ''_out'', ''tif'', ''.'', ''8'', ''Y'', ''E'', ''1'', ''N'',
      ''gray'', ''N'', ''N'', ''N'']
     13 ''SaveImages'' True
   = backwards_compatibilize str_isdigit (\<lambda>t. [])
     [''OrigBlue'', ''N'', ''_out'', ''tif'', ''.'', ''8'', ''Y'', ''E'', ''1'', ''N'',
      ''gray'', ''N'', ''N'', ''N'']
     14 ''SaveImages'' True"
    using backwards_compatibilize_revision_13
            [of "[''OrigBlue'', ''N'', ''_out'', ''tif'', ''.'', ''8'', ''Y'', ''E'', ''1'',
                  ''N'', ''gray'', ''N'', ''N'', ''N'']"
                str_isdigit "\<lambda>t. []" "''SaveImages''"]
    by simp
  then have a: "backwards_compatibilize str_isdigit (\<lambda>t. [])
     [''OrigBlue'', ''N'', ''_out'', ''tif'', ''.'', ''8'', ''Y'', ''E'', ''1'', ''N'',
      ''gray'', ''N'', ''N'', ''N'']
     13 ''SaveImages'' True
   = Inr ([''Image'', ''OrigBlue'', ''OrigBlue'', ''Sequential numbers'', ''None'', ''None'',
           ''_out'', ''tif'', ''Default output directory'', ''None'', ''8'', ''Y'', ''E'',
           ''1'', ''N'', ''gray'', ''N'', ''N''], 1, False)"
    by (simp only: v)
  have b: "backwards_compatibilize str_isdigit (\<lambda>t. [])
     [''OrigBlue'', [], ''_out'', ''tif'', ''.'', ''8'', ''Y'', ''E'', ''1'', ''N'',
      ''gray'', ''N'', ''N'', ''N'']
     13 ''SaveImages'' True
   = Inl IndexError"
    using backwards_compatibilize_revision_13
            [of "[''OrigBlue'', [], ''_out'', ''tif'', ''.'', ''8'', ''Y'', ''E'', ''1'',
                  ''N'', ''gray'', ''N'', ''N'', ''N'']"
                str_isdigit "\<lambda>t. []" "''SaveImages''"]
    by simp
  have c: "backwards_compatibilize str_isdigit (\<lambda>t. [])
     [''OrigBlue'', ''N'', ''_out'', ''tif'', ''.'', ''8'', ''Y'', ''E'', ''1'', ''N'',
      ''gray'', ''N'']
     13 ''SaveImages'' True
   = Inl IndexError"
    using backwards_compatibilize_revision_13
            [of "[''OrigBlue'', ''N'', ''_out'', ''tif'', ''.'', ''8'', ''Y'', ''E'', ''1'',
                  ''N'', ''gray'', ''N'']"
                str_isdigit "\<lambda>t. []" "''SaveImages''"]
    by simp
  from a b c show ?thesis
    by (intro conjI)
qed

end
